theory Spec2Isabelle
  imports Main "HOL-Library.Word"
begin

unbundle bit_operations_syntax

section \<open>Strings, panics and errors\<close>

text \<open>
  A Go string is a sequence of bytes; it is modelled as a \<^typ>\<open>string\<close>, whose
  characters are 8-bit. Run-time panics of a slice expression and of a method call
  through a nil interface are values of \<open>panic\<close>; a function that can panic returns
  \<open>panic + 'a\<close>.
\<close>

datatype panic = SliceBoundsOutOfRange | NilDereference

text \<open>
  Errors returned as Go \<open>error\<close> values. \<open>ErrInvalidNamespace\<close> is the package variable
  of vfs.go; the other constructors stand for the errors of package os (\<open>IOError\<close>), of
  the multipart parser of net/http (\<open>FormError\<close>) and of the repository (\<open>RepoError\<close>),
  each carrying its message.
\<close>

datatype error = ErrInvalidNamespace | IOError string | FormError string | RepoError string

fun error_msg :: "error \<Rightarrow> string" where
  "error_msg ErrInvalidNamespace = ''invalid namespace''"
| "error_msg (IOError m) = m"
| "error_msg (FormError m) = m"
| "error_msg (RepoError m) = m"

definition DefaultHashExtension :: string where
  "DefaultHashExtension = ''jpg''"

definition NamespacePublic :: string where
  "NamespacePublic = ''''"

section \<open>Lexical path operations of path/filepath (Unix)\<close>

text \<open>
  \<open>string(b)\<close> for a byte \<open>b\<close> is Go's conversion of an integer to the UTF-8 encoding of
  the code point of that value: one byte below 0x80, two bytes from 0x80 to 0xFF.
\<close>

definition string_of_byte :: "char \<Rightarrow> string" where
  "string_of_byte b =
     (let n = (of_char b :: nat)
      in if n < 128 then [b]
         else [char_of (192 + n div 64), char_of (128 + n mod 64)])"

text \<open>
  \<open>filepath.Clean\<close>: the loop of the standard library over the bytes of the path. The
  argument list is what is left to read (\<open>path[r:]\<close>), \<open>out\<close> is the buffer written so
  far (\<open>out.w = length out\<close>), \<open>dotdot\<close> the index where a \<open>..\<close> must stop.
\<close>

definition is_sep :: "char \<Rightarrow> bool" where
  "is_sep c \<longleftrightarrow> c = CHR ''/''"

fun backtrack :: "nat \<Rightarrow> string \<Rightarrow> nat \<Rightarrow> nat" where
  "backtrack dotdot out 0 = 0"
| "backtrack dotdot out (Suc w) =
     (if Suc w > dotdot \<and> \<not> is_sep (out ! Suc w) then backtrack dotdot out w else Suc w)"

function clean_loop :: "bool \<Rightarrow> string \<Rightarrow> string \<Rightarrow> nat \<Rightarrow> string" where
  "clean_loop rooted [] out dotdot = out"
| "clean_loop rooted (c # cs) out dotdot =
     (if is_sep c then clean_loop rooted cs out dotdot
      else if c = CHR ''.'' \<and> (cs = [] \<or> is_sep (hd cs)) then clean_loop rooted cs out dotdot
      else if c = CHR ''.'' \<and> hd cs = CHR ''.'' \<and> (tl cs = [] \<or> is_sep (hd (tl cs))) then
        (if length out > dotdot then
           clean_loop rooted (tl cs) (take (backtrack dotdot out (length out - 1)) out) dotdot
         else if \<not> rooted then
           (let out' = (if length out > 0 then out @ ''/'' else out) @ ''..''
            in clean_loop rooted (tl cs) out' (length out'))
         else clean_loop rooted (tl cs) out dotdot)
      else
        (let out' = (if rooted \<and> length out \<noteq> 1 \<or> \<not> rooted \<and> length out \<noteq> 0
                     then out @ ''/'' else out)
         in clean_loop rooted (dropWhile (\<lambda>x. \<not> is_sep x) (c # cs))
              (out' @ takeWhile (\<lambda>x. \<not> is_sep x) (c # cs)) dotdot))"
  by pat_completeness auto
termination
proof (relation "measure (\<lambda>(rooted, p, out, dotdot). length p)")
  show "wf (measure (\<lambda>(rooted, p, out, dotdot). length p))"
    by simp
qed (auto simp: less_Suc_eq_le length_dropWhile_le)

declare clean_loop.simps [simp del]

definition Clean :: "string \<Rightarrow> string" where
  "Clean p =
     (if p = [] then ''.''
      else let rooted = is_sep (hd p);
               out = (if rooted then clean_loop True (tl p) ''/'' 1
                      else clean_loop False p [] 0)
           in if out = [] then ''.'' else out)"

text \<open>\<open>strings.Join(elem, "/")\<close>.\<close>

fun join_sep :: "string list \<Rightarrow> string" where
  "join_sep [] = []"
| "join_sep [e] = e"
| "join_sep (e # es) = e @ ''/'' @ join_sep es"

text \<open>
  \<open>filepath.Join\<close>: leading empty elements are dropped, the rest is joined with the
  separator and cleaned; the result is empty when every element is. On Unix
  \<open>path.Join\<close> computes the same function.
\<close>

definition Join :: "string list \<Rightarrow> string" where
  "Join elem =
     (case dropWhile (\<lambda>e. e = []) elem of
        [] \<Rightarrow> []
      | es \<Rightarrow> Clean (join_sep es))"

text \<open>\<open>filepath.Dir\<close>: everything up to the last separator, cleaned.\<close>

definition filepath_Dir :: "string \<Rightarrow> string" where
  "filepath_Dir p = Clean (rev (dropWhile (\<lambda>x. \<not> is_sep x) (rev p)))"

text \<open>
  \<open>filepath.Ext\<close>: the suffix from the last dot of the last path element, empty when
  that element has no dot. The scan runs from the end of the string.
\<close>

fun ext_scan :: "string \<Rightarrow> string \<Rightarrow> string" where
  "ext_scan [] acc = []"
| "ext_scan (c # cs) acc =
     (if is_sep c then []
      else if c = CHR ''.'' then c # acc
      else ext_scan cs (c # acc))"

definition filepath_Ext :: "string \<Rightarrow> string" where
  "filepath_Ext p = ext_scan (rev p) []"

definition TrimPrefix :: "string \<Rightarrow> string \<Rightarrow> string" where
  "TrimPrefix s pre = (if take (length pre) s = pre then drop (length pre) s else s)"

definition TrimSuffix :: "string \<Rightarrow> string \<Rightarrow> string" where
  "TrimSuffix s suf =
     (if length suf \<le> length s \<and> drop (length s - length suf) s = suf
      then take (length s - length suf) s else s)"

section \<open>FileHash\<close>

text \<open>
  \<open>FileHash.Dir\<close>: \<open>string(h[0]) + "/" + string(h[1:3])\<close>. The compiled code checks the
  bounds of the slice expression before it reads \<open>h[0]\<close>, so every string of fewer than
  3 bytes, the empty one included, panics with ``slice bounds out of range''.
\<close>

definition Dir :: "string \<Rightarrow> panic + string" where
  "Dir h =
     (if length h < 3 then Inl SliceBoundsOutOfRange
      else Inr (string_of_byte (h ! 0) @ ''/'' @ take 2 (drop 1 h)))"

text \<open>\<open>FileHash.File\<close>: \<open>filepath.Join(h.Dir(), string(h)) + "." + DefaultHashExtension\<close>.\<close>

definition File :: "string \<Rightarrow> panic + string" where
  "File h =
     (case Dir h of
        Inl p \<Rightarrow> Inl p
      | Inr d \<Rightarrow> Inr (Join [d, h] @ ''.'' @ DefaultHashExtension))"

section \<open>crypto/md5 and encoding/hex\<close>

text \<open>
  The digest of the standard library, as RFC 1321 defines it: the message is padded with
  0x80, zero bytes and its length in bits (64 bits, little endian) to a multiple of 64
  bytes, and each 64-byte block is mixed into four 32-bit words in 64 steps. The four
  round functions are written as in \<open>md5block.go\<close>.
\<close>

definition md5_K :: "32 word list" where
  "md5_K =
     [0xd76aa478, 0xe8c7b756, 0x242070db, 0xc1bdceee,
      0xf57c0faf, 0x4787c62a, 0xa8304613, 0xfd469501,
      0x698098d8, 0x8b44f7af, 0xffff5bb1, 0x895cd7be,
      0x6b901122, 0xfd987193, 0xa679438e, 0x49b40821,
      0xf61e2562, 0xc040b340, 0x265e5a51, 0xe9b6c7aa,
      0xd62f105d, 0x02441453, 0xd8a1e681, 0xe7d3fbc8,
      0x21e1cde6, 0xc33707d6, 0xf4d50d87, 0x455a14ed,
      0xa9e3e905, 0xfcefa3f8, 0x676f02d9, 0x8d2a4c8a,
      0xfffa3942, 0x8771f681, 0x6d9d6122, 0xfde5380c,
      0xa4beea44, 0x4bdecfa9, 0xf6bb4b60, 0xbebfbc70,
      0x289b7ec6, 0xeaa127fa, 0xd4ef3085, 0x04881d05,
      0xd9d4d039, 0xe6db99e5, 0x1fa27cf8, 0xc4ac5665,
      0xf4292244, 0x432aff97, 0xab9423a7, 0xfc93a039,
      0x655b59c3, 0x8f0ccc92, 0xffeff47d, 0x85845dd1,
      0x6fa87e4f, 0xfe2ce6e0, 0xa3014314, 0x4e0811a1,
      0xf7537e82, 0xbd3af235, 0x2ad7d2bb, 0xeb86d391]"

definition md5_shift :: "nat list" where
  "md5_shift =
     [7, 12, 17, 22, 7, 12, 17, 22, 7, 12, 17, 22, 7, 12, 17, 22,
      5, 9, 14, 20, 5, 9, 14, 20, 5, 9, 14, 20, 5, 9, 14, 20,
      4, 11, 16, 23, 4, 11, 16, 23, 4, 11, 16, 23, 4, 11, 16, 23,
      6, 10, 15, 21, 6, 10, 15, 21, 6, 10, 15, 21, 6, 10, 15, 21]"

definition RotateLeft32 :: "32 word \<Rightarrow> nat \<Rightarrow> 32 word" where
  "RotateLeft32 x k = push_bit k x OR drop_bit (32 - k) x"

definition md5_mix :: "nat \<Rightarrow> 32 word \<Rightarrow> 32 word \<Rightarrow> 32 word \<Rightarrow> 32 word" where
  "md5_mix i b c d =
     (if i < 16 then ((c XOR d) AND b) XOR d
      else if i < 32 then ((b XOR c) AND d) XOR c
      else if i < 48 then b XOR c XOR d
      else c XOR (b OR NOT d))"

definition md5_index :: "nat \<Rightarrow> nat" where
  "md5_index i =
     (if i < 16 then i
      else if i < 32 then (5 * i + 1) mod 16
      else if i < 48 then (3 * i + 5) mod 16
      else (7 * i) mod 16)"

type_synonym md5_state = "32 word \<times> 32 word \<times> 32 word \<times> 32 word"

fun md5_step :: "32 word list \<Rightarrow> md5_state \<Rightarrow> nat \<Rightarrow> md5_state" where
  "md5_step x (a, b, c, d) i =
     (d, b + RotateLeft32 (md5_mix i b c d + a + x ! md5_index i + md5_K ! i) (md5_shift ! i), b, c)"

fun LEUint32 :: "string \<Rightarrow> 32 word" where
  "LEUint32 (b0 # b1 # b2 # b3 # _) =
     of_char b0 OR push_bit 8 (of_char b1) OR push_bit 16 (of_char b2) OR push_bit 24 (of_char b3)"
| "LEUint32 _ = 0"

definition LEPutUint32 :: "32 word \<Rightarrow> string" where
  "LEPutUint32 w = map (\<lambda>k. char_of (unat (take_bit 8 (drop_bit (8 * k) w)))) [0, 1, 2, 3]"

definition LEPutUint64 :: "64 word \<Rightarrow> string" where
  "LEPutUint64 w = map (\<lambda>k. char_of (unat (take_bit 8 (drop_bit (8 * k) w)))) [0, 1, 2, 3, 4, 5, 6, 7]"

definition md5_block :: "md5_state \<Rightarrow> string \<Rightarrow> md5_state" where
  "md5_block s q =
     (let x = map (\<lambda>k. LEUint32 (drop (4 * k) q)) [0..<16]
      in case s of (aa, bb, cc, dd) \<Rightarrow>
           (case foldl (md5_step x) s [0..<64] of
              (a, b, c, d) \<Rightarrow> (a + aa, b + bb, c + cc, d + dd)))"

function md5_blocks :: "md5_state \<Rightarrow> string \<Rightarrow> md5_state" where
  "md5_blocks s p =
     (if length p < 64 then s else md5_blocks (md5_block s (take 64 p)) (drop 64 p))"
  by pat_completeness auto
termination
  by (relation "measure (\<lambda>(s, p). length p)") auto

declare md5_blocks.simps [simp del]

definition md5_init :: md5_state where
  "md5_init = (0x67452301, 0xefcdab89, 0x98badcfe, 0x10325476)"

definition md5_pad :: "string \<Rightarrow> string" where
  "md5_pad data =
     data @ [char_of (128 :: nat)] @ replicate ((119 - length data mod 64) mod 64) (char_of (0 :: nat))
       @ LEPutUint64 (push_bit 3 (of_nat (length data)))"

definition md5_Sum :: "string \<Rightarrow> string" where
  "md5_Sum data =
     (case md5_blocks md5_init (md5_pad data) of
        (a, b, c, d) \<Rightarrow> LEPutUint32 a @ LEPutUint32 b @ LEPutUint32 c @ LEPutUint32 d)"

text \<open>\<open>hex.EncodeToString\<close>: two lower-case digits for every byte.\<close>

definition hextable :: string where
  "hextable = ''0123456789abcdef''"

definition EncodeToString :: "string \<Rightarrow> string" where
  "EncodeToString src =
     concat (map (\<lambda>v. [hextable ! ((of_char v :: nat) div 16), hextable ! ((of_char v :: nat) mod 16)]) src)"

text \<open>The verb \<open>%d\<close> of \<open>fmt.Sprintf\<close>: a signed decimal numeral.\<close>

function decimal :: "nat \<Rightarrow> string" where
  "decimal n =
     (if n < 10 then [char_of (48 + n)]
      else decimal (n div 10) @ [char_of (48 + n mod 10)])"
  by pat_completeness auto
termination
  by (relation "measure id") auto

declare decimal.simps [simp del]

definition Itoa :: "int \<Rightarrow> string" where
  "Itoa i = (if i < 0 then ''-'' @ decimal (nat (- i)) else decimal (nat i))"

section \<open>Configuration, file system and collaborators\<close>

text \<open>
  \<open>Config\<close> without its database options, which vfs.go never reads. \<open>MaxFileSize\<close> is
  an int64 that is only compared, never computed with.
\<close>

record Config =
  MaxFileSize :: int
  Path :: string
  WebPath :: string
  Namespaces :: "string list"
  UploadFormName :: string
  SaltedFilenames :: bool

text \<open>
  The records of package db that vfs.go reads and builds. \<open>FolderKey\<close> is the field
  \<open>ID\<close> of \<open>db.VfsFolder\<close>, \<open>FilePath\<close> the field \<open>Path\<close> of \<open>db.VfsFile\<close>;
  \<open>FileSize\<close> is the integer the pointer field refers to, \<open>Params\<close> is \<open>None\<close>
  for a nil pointer, \<open>CreatedAt\<close> is the reading of the clock.
\<close>

record VfsFileParams =
  Height :: int
  Width :: int

record VfsFolder =
  FolderKey :: int

record VfsFile =
  ID :: int
  FolderID :: int
  Title :: string
  FilePath :: string
  Params :: "VfsFileParams option"
  MimeType :: string
  FileSize :: int
  FileExists :: bool
  StatusID :: int
  CreatedAt :: int

text \<open>
  An \<open>io.Reader\<close>: the bytes it delivers, then end of input or an error. A nil reader
  is \<open>None\<close> of \<open>reader option\<close>.
\<close>

record reader =
  rdata :: string
  rerr :: "error option"

text \<open>The calls into the operating system that vfs.go makes, with their arguments.\<close>

datatype op =
    OpTempFile string string
  | OpSync string
  | OpCopy string
  | OpMkdirAll string
  | OpRename string string
  | OpClose string
  | OpRemove string
  | OpCreate string
  | OpOpen string
  | OpStat string
  | OpSeek string

text \<open>
  The state that vfs.go changes: the regular files with their contents, the calls made so
  far (oldest first), the rows the repository has stored, and how many numbers have been
  drawn from the shared random source.
\<close>

record world =
  files :: "string \<rightharpoonup> string"
  calls :: "op list"
  rows :: "VfsFile list"
  drawn :: nat

text \<open>
  What vfs.go cannot decide by itself: which system calls fail and with what error, how
  many bytes reach the file when a copy fails, the directory of \<open>os.TempDir()\<close>, the
  random part of the name of a temp file (as a function of the number of system calls made
  before it is created), the numbers of the random source, the clock, the image decoder
  and the MIME sniffer (as functions of a file's contents), the repository's answers, and
  the constant \<open>db.StatusEnabled\<close>.
\<close>

record env =
  fails :: "op \<Rightarrow> error option"
  short_write :: nat
  os_TempDir :: string
  temp_random :: "nat \<Rightarrow> string"
  rand_Intn :: "nat \<Rightarrow> nat"
  now_200601 :: string
  now :: int
  decode_config :: "string \<Rightarrow> error + (int \<times> int)"
  detect_mime :: "string \<Rightarrow> error + string"
  next_file_id :: "error + int"
  add_vfs_file :: "VfsFile \<Rightarrow> error + VfsFile"
  StatusEnabled :: int

definition sys :: "env \<Rightarrow> op \<Rightarrow> world \<Rightarrow> error option \<times> world" where
  "sys e c w = (fails e c, w\<lparr>calls := calls w @ [c]\<rparr>)"

text \<open>
  The error of a call on a file that does not exist: the operation and its paths, then
  the text of \<open>ENOENT\<close>, as \<open>*os.PathError\<close> and \<open>*os.LinkError\<close> print it.
\<close>

definition no_such_file :: "string \<Rightarrow> string list \<Rightarrow> error" where
  "no_such_file opname paths =
     IOError (opname @ concat (map (\<lambda>p. '' '' @ p) paths) @ '': no such file or directory'')"

text \<open>
  \<open>ioutil.TempFile(dir, prefix)\<close>: a new empty file \<open>dir/prefix<random>\<close>, where an
  empty \<open>dir\<close> stands for \<open>os.TempDir()\<close>.
\<close>

definition TempFile :: "env \<Rightarrow> string \<Rightarrow> string \<Rightarrow> world \<Rightarrow> (error + string) \<times> world" where
  "TempFile e dir prefix w =
     (case sys e (OpTempFile dir prefix) w of
        (Some err, w1) \<Rightarrow> (Inl err, w1)
      | (None, w1) \<Rightarrow>
          (let name = Join [if dir = '''' then os_TempDir e else dir,
                            prefix @ temp_random e (length (calls w))]
           in (Inr name, w1\<lparr>files := (files w1)(name \<mapsto> [])\<rparr>)))"

definition Create :: "env \<Rightarrow> string \<Rightarrow> world \<Rightarrow> error option \<times> world" where
  "Create e name w =
     (case sys e (OpCreate name) w of
        (Some err, w1) \<Rightarrow> (Some err, w1)
      | (None, w1) \<Rightarrow> (None, w1\<lparr>files := (files w1)(name \<mapsto> [])\<rparr>))"

definition Sync :: "env \<Rightarrow> string \<Rightarrow> world \<Rightarrow> error option \<times> world" where
  "Sync e name w = sys e (OpSync name) w"

definition Close :: "env \<Rightarrow> string \<Rightarrow> world \<Rightarrow> error option \<times> world" where
  "Close e name w = sys e (OpClose name) w"

definition MkdirAll :: "env \<Rightarrow> string \<Rightarrow> world \<Rightarrow> error option \<times> world" where
  "MkdirAll e dir w = sys e (OpMkdirAll dir) w"

definition Seek :: "env \<Rightarrow> string \<Rightarrow> world \<Rightarrow> error option \<times> world" where
  "Seek e name w = sys e (OpSeek name) w"

definition append_file :: "string \<Rightarrow> string \<Rightarrow> world \<Rightarrow> world" where
  "append_file name bs w =
     w\<lparr>files := (files w)(name \<mapsto> (case files w name of None \<Rightarrow> bs | Some old \<Rightarrow> old @ bs))\<rparr>"

text \<open>
  \<open>io.Copy(f, r)\<close> into the open file \<open>name\<close>: a nil reader panics at its first
  \<open>Read\<close>; a failing write leaves a prefix of the data in the file; a reader that
  fails has delivered its data first.
\<close>

definition Copy :: "env \<Rightarrow> string \<Rightarrow> reader option \<Rightarrow> world \<Rightarrow> (panic + error option) \<times> world" where
  "Copy e name r w =
     (case r of
        None \<Rightarrow> (Inl NilDereference, w)
      | Some rd \<Rightarrow>
          (case sys e (OpCopy name) w of
             (Some err, w1) \<Rightarrow> (Inr (Some err), append_file name (take (short_write e) (rdata rd)) w1)
           | (None, w1) \<Rightarrow> (Inr (rerr rd), append_file name (rdata rd) w1)))"

definition Rename :: "env \<Rightarrow> string \<Rightarrow> string \<Rightarrow> world \<Rightarrow> error option \<times> world" where
  "Rename e old new w =
     (case sys e (OpRename old new) w of
        (Some err, w1) \<Rightarrow> (Some err, w1)
      | (None, w1) \<Rightarrow>
          (case files w1 old of
             None \<Rightarrow> (Some (no_such_file ''rename'' [old, new]), w1)
           | Some bs \<Rightarrow> (None, w1\<lparr>files := ((files w1)(old := None))(new \<mapsto> bs)\<rparr>)))"

definition Remove :: "env \<Rightarrow> string \<Rightarrow> world \<Rightarrow> error option \<times> world" where
  "Remove e name w =
     (case sys e (OpRemove name) w of
        (Some err, w1) \<Rightarrow> (Some err, w1)
      | (None, w1) \<Rightarrow>
          (case files w1 name of
             None \<Rightarrow> (Some (no_such_file ''remove'' [name]), w1)
           | Some bs \<Rightarrow> (None, w1\<lparr>files := (files w1)(name := None)\<rparr>)))"

text \<open>\<open>os.Open\<close> gives the contents that later reads of the handle see.\<close>

definition Open :: "env \<Rightarrow> string \<Rightarrow> world \<Rightarrow> (error + string) \<times> world" where
  "Open e name w =
     (case sys e (OpOpen name) w of
        (Some err, w1) \<Rightarrow> (Inl err, w1)
      | (None, w1) \<Rightarrow>
          (case files w1 name of
             None \<Rightarrow> (Inl (no_such_file ''open'' [name]), w1)
           | Some bs \<Rightarrow> (Inr bs, w1)))"

text \<open>\<open>reader.Stat()\<close> followed by \<open>fi.Size()\<close> on a handle with contents \<open>bs\<close>.\<close>

definition Stat :: "env \<Rightarrow> string \<Rightarrow> string \<Rightarrow> world \<Rightarrow> (error + int) \<times> world" where
  "Stat e name bs w =
     (case sys e (OpStat name) w of
        (Some err, w1) \<Rightarrow> (Inl err, w1)
      | (None, w1) \<Rightarrow> (Inr (int (length bs)), w1))"

text \<open>\<open>randSeq(n)\<close>: \<open>n\<close> letters, each chosen by \<open>rand.Intn(len(letters))\<close>.\<close>

definition letters :: string where
  "letters = ''abcdefghijklmnopqrstuvwxyz0123456789''"

definition randSeq :: "env \<Rightarrow> nat \<Rightarrow> world \<Rightarrow> string \<times> world" where
  "randSeq e n w =
     (map (\<lambda>i. letters ! (rand_Intn e (drawn w + i) mod length letters)) [0..<n],
      w\<lparr>drawn := drawn w + n\<rparr>)"

section \<open>The operations of vfs.go\<close>

text \<open>\<open>VFS.IsValidNamespace\<close>, with its loop over the configured namespaces.\<close>

fun namespace_loop :: "string list \<Rightarrow> string \<Rightarrow> bool" where
  "namespace_loop [] ns = False"
| "namespace_loop (n # rest) ns = (if n = ns then True else namespace_loop rest ns)"

definition IsValidNamespace :: "Config \<Rightarrow> string \<Rightarrow> bool" where
  "IsValidNamespace cfg ns =
     (if ns = NamespacePublic then True else namespace_loop (Namespaces cfg) ns)"

definition VFS_Path :: "Config \<Rightarrow> string \<Rightarrow> string \<Rightarrow> string" where
  "VFS_Path cfg ns p = Join [Path cfg, ns, p]"

definition FullDir :: "Config \<Rightarrow> string \<Rightarrow> string \<Rightarrow> panic + string" where
  "FullDir cfg ns h = (case Dir h of Inl p \<Rightarrow> Inl p | Inr d \<Rightarrow> Inr (VFS_Path cfg ns d))"

definition FullFile :: "Config \<Rightarrow> string \<Rightarrow> string \<Rightarrow> panic + string" where
  "FullFile cfg ns h = (case File h of Inl p \<Rightarrow> Inl p | Inr f \<Rightarrow> Inr (VFS_Path cfg ns f))"

definition WebHashPath :: "Config \<Rightarrow> string \<Rightarrow> string \<Rightarrow> panic + string" where
  "WebHashPath cfg ns h =
     (case File h of Inl p \<Rightarrow> Inl p | Inr f \<Rightarrow> Inr (Join [WebPath cfg, ns, f]))"

text \<open>
  \<open>VFS.Upload\<close>. The deferred \<open>f.Close()\<close> runs on every way out once the file is
  created, and its error is dropped.
\<close>

definition Upload ::
  "Config \<Rightarrow> env \<Rightarrow> reader option \<Rightarrow> string \<Rightarrow> string \<Rightarrow> world \<Rightarrow> (panic + error option) \<times> world" where
  "Upload cfg e r relFilename ns w =
     (let name = Join [Path cfg, ns, relFilename];
          fileDir = filepath_Dir name
      in case MkdirAll e fileDir w of
           (Some err, w1) \<Rightarrow> (Inr (Some err), w1)
         | (None, w1) \<Rightarrow>
             (case Create e name w1 of
                (Some err, w2) \<Rightarrow> (Inr (Some err), w2)
              | (None, w2) \<Rightarrow>
                  (case Copy e name r w2 of
                     (Inl p, w3) \<Rightarrow> (Inl p, snd (Close e name w3))
                   | (Inr (Some err), w3) \<Rightarrow> (Inr (Some err), snd (Close e name w3))
                   | (Inr None, w3) \<Rightarrow>
                       (case Sync e name w3 of
                          (res, w4) \<Rightarrow> (Inr res, snd (Close e name w4))))))"

text \<open>\<open>VFS.Move\<close>.\<close>

definition Move :: "Config \<Rightarrow> env \<Rightarrow> string \<Rightarrow> string \<Rightarrow> string \<Rightarrow> world \<Rightarrow> error option \<times> world" where
  "Move cfg e ns currentPath newPath w =
     (let currentPath' = Join [Path cfg, ns, currentPath];
          newPath' = Join [Path cfg, ns, newPath]
      in case MkdirAll e (filepath_Dir newPath') w of
           (Some err, w1) \<Rightarrow> (Some err, w1)
         | (None, w1) \<Rightarrow> Rename e currentPath' newPath' w1)"

text \<open>
  \<open>VFS.HashUpload\<close> in three parts. \<open>HashUpload_body\<close> is the function body after the
  temp file exists: it yields the values of the \<open>return\<close> statement reached (or the
  panic) and the value of \<open>deleteTempFile\<close> at that point. \<open>HashUpload_deferred\<close> is
  the deferred function: it closes the temp file, deletes it when \<open>deleteTempFile\<close>
  holds, and overwrites the named result \<open>err\<close> only when that is nil.
\<close>

definition HashUpload_deferred ::
  "env \<Rightarrow> string \<Rightarrow> bool \<Rightarrow> error option \<Rightarrow> world \<Rightarrow> error option \<times> world" where
  "HashUpload_deferred e tempFilename deleteTempFile err w =
     (case Close e tempFilename w of
        (fErr, w1) \<Rightarrow>
          if err = None \<and> fErr \<noteq> None then (fErr, w1)
          else if deleteTempFile then
            (case Remove e tempFilename w1 of
               (fErr', w2) \<Rightarrow> (if err = None \<and> fErr' \<noteq> None then fErr' else err, w2))
          else (err, w1))"

definition HashUpload_body ::
  "Config \<Rightarrow> env \<Rightarrow> reader option \<Rightarrow> string \<Rightarrow> string \<Rightarrow> world
     \<Rightarrow> ((panic + string \<times> error option) \<times> bool) \<times> world" where
  "HashUpload_body cfg e r ns tempFilename w =
     (case Sync e tempFilename w of
        (Some err, w1) \<Rightarrow> ((Inr ('''', Some err), True), w1)
      | (None, w1) \<Rightarrow>
          (case Copy e tempFilename r w1 of
             (Inl p, w2) \<Rightarrow> ((Inl p, True), w2)
           | (Inr (Some err), w2) \<Rightarrow> ((Inr ('''', Some err), True), w2)
           | (Inr None, w2) \<Rightarrow>
               (let hashHex = EncodeToString (take 16
                                (md5_Sum (case r of None \<Rightarrow> [] | Some rd \<Rightarrow> rdata rd)));
                    fh = hashHex
                in case FullDir cfg ns fh of
                     Inl p \<Rightarrow> ((Inl p, True), w2)
                   | Inr dir \<Rightarrow>
                       (case MkdirAll e dir w2 of
                          (Some err, w3) \<Rightarrow> ((Inr ('''', Some err), True), w3)
                        | (None, w3) \<Rightarrow>
                            (case FullFile cfg ns fh of
                               Inl p \<Rightarrow> ((Inl p, True), w3)
                             | Inr dest \<Rightarrow>
                                 (case Rename e tempFilename dest w3 of
                                    (Some err, w4) \<Rightarrow> ((Inr ('''', Some err), True), w4)
                                  | (None, w4) \<Rightarrow> ((Inr (fh, None), False), w4)))))))"

definition HashUpload ::
  "Config \<Rightarrow> env \<Rightarrow> reader option \<Rightarrow> string \<Rightarrow> world \<Rightarrow> (panic + string \<times> error option) \<times> world" where
  "HashUpload cfg e r ns w =
     (if \<not> IsValidNamespace cfg ns then (Inr ('''', Some ErrInvalidNamespace), w)
      else case TempFile e (Path cfg) ''vfs'' w of
             (Inl err, w1) \<Rightarrow> (Inr ('''', Some err), w1)
           | (Inr tempFilename, w1) \<Rightarrow>
               (case HashUpload_body cfg e r ns tempFilename w1 of
                  ((Inl p, deleteTempFile), w2) \<Rightarrow>
                    (Inl p, snd (HashUpload_deferred e tempFilename deleteTempFile None w2))
                | ((Inr (fh, err), deleteTempFile), w2) \<Rightarrow>
                    (case HashUpload_deferred e tempFilename deleteTempFile err w2 of
                       (err', w3) \<Rightarrow> (Inr (fh, err'), w3))))"

section \<open>The upload orchestration\<close>

record UploadResponse =
  Code :: int
  Error :: string
  Hash :: string
  HashWebPath :: string
  FileID :: int
  Extension :: string
  Name :: string

definition response :: "int \<Rightarrow> UploadResponse" where
  "response c =
     \<lparr>Code = c, Error = '''', Hash = '''', HashWebPath = '''', FileID = 0,
      Extension = '''', Name = ''''\<rparr>"

definition StatusOK :: int where
  "StatusOK = 200"

definition StatusBadRequest :: int where
  "StatusBadRequest = 400"

definition StatusRequestEntityTooLarge :: int where
  "StatusRequestEntityTooLarge = 413"

definition StatusInternalServerError :: int where
  "StatusInternalServerError = 500"

text \<open>
  The part of an \<open>http.Request\<close> that \<open>uploadFile\<close> reads: the method; for PUT the body
  and \<open>ContentLength\<close>; for POST either the multipart body that is still unread (the
  file parts it delivers in order, the error that ends its reading, if any, and the error
  of \<open>r.ParseForm\<close> on the URL query, if any), or the form that the request already
  holds in \<open>r.MultipartForm\<close> because a form value has been read before.
\<close>

record part =
  FormName :: string
  Filename :: string
  content :: string

text \<open>
  A \<open>multipart.FileHeader\<close>: the part, and where its bytes are, in memory (\<open>None\<close>) or
  in a temp file, from an offset on.
\<close>

type_synonym header = "part \<times> (string \<times> nat) option"

datatype request =
    PUT reader int
  | POST "part list" "error option" "error option"
  | POST_parsed "header list"
  | OTHER

definition ErrMissingFile :: error where
  "ErrMissingFile = FormError ''http: no such file''"

text \<open>
  \<open>Form.RemoveAll\<close>: removes the temp file of every header that has one. (Go visits the
  form fields in the order of a map; the model takes the order of the parts.)
\<close>

fun RemoveAll :: "env \<Rightarrow> header list \<Rightarrow> world \<Rightarrow> world" where
  "RemoveAll e [] w = w"
| "RemoveAll e ((p, None) # hs) w = RemoveAll e hs w"
| "RemoveAll e ((p, Some (tmp, off)) # hs) w = RemoveAll e hs (snd (Remove e tmp w))"

text \<open>
  \<open>multipart.Reader.ReadForm\<close> as \<open>mime/multipart\<close> does it since Go 1.20. A file part
  that fits into what is left of \<open>maxMemory\<close> stays in memory; every other one is
  written to one shared temp file \<open>multipart-<random>\<close> in \<open>os.TempDir()\<close>, created for
  the first such part. \<open>readForm_deferred\<close> is the deferred function: it closes the temp
  file, and on an error removes what was written.
\<close>

definition readForm_deferred ::
  "env \<Rightarrow> string option \<Rightarrow> header list \<Rightarrow> error option \<Rightarrow> world \<Rightarrow> (error + header list) \<times> world" where
  "readForm_deferred e file form err w =
     (case (case file of None \<Rightarrow> (None, w) | Some name \<Rightarrow> Close e name w) of
        (cerr, w1) \<Rightarrow>
          (case (if err = None then cerr else err) of
             None \<Rightarrow> (Inr form, w1)
           | Some x \<Rightarrow>
               (Inl x, (case file of
                          None \<Rightarrow> RemoveAll e form w1
                        | Some name \<Rightarrow> snd (Remove e name (RemoveAll e form w1))))))"

fun readForm ::
  "env \<Rightarrow> int \<Rightarrow> part list \<Rightarrow> error option \<Rightarrow> string option \<Rightarrow> nat \<Rightarrow> header list \<Rightarrow> world
     \<Rightarrow> (error + header list) \<times> world" where
  "readForm e maxFileMemoryBytes [] fin file fileOff form w = readForm_deferred e file form fin w"
| "readForm e maxFileMemoryBytes (p # ps) fin file fileOff form w =
     (let n = length (content p)
      in if int n > maxFileMemoryBytes then
           (case (case file of
                    Some name \<Rightarrow> (Inr name, w)
                  | None \<Rightarrow> TempFile e '''' ''multipart-'' w) of
              (Inl err, w1) \<Rightarrow> readForm_deferred e None form (Some err) w1
            | (Inr name, w1) \<Rightarrow>
                (case sys e (OpCopy name) w1 of
                   (Some err, w2) \<Rightarrow>
                     readForm_deferred e (Some name) form (Some err)
                       (append_file name (take (short_write e) (content p)) w2)
                 | (None, w2) \<Rightarrow>
                     readForm e maxFileMemoryBytes ps fin (Some name) (fileOff + n)
                       (form @ [(p, Some (name, fileOff))]) (append_file name (content p) w2)))
         else readForm e (maxFileMemoryBytes - int n) ps fin file fileOff (form @ [(p, None)]) w)"

text \<open>
  \<open>r.ParseMultipartForm(maxMemory)\<close>: nothing to do when the request holds a form
  already; otherwise the body is read, and the error of \<open>r.ParseForm\<close> is returned at the
  end, with the form kept.
\<close>

definition ParseMultipartForm ::
  "env \<Rightarrow> int \<Rightarrow> request \<Rightarrow> world \<Rightarrow> (error + header list) \<times> world" where
  "ParseMultipartForm e maxMemory req w =
     (case req of
        POST_parsed form \<Rightarrow> (Inr form, w)
      | POST ps fin parseFormErr \<Rightarrow>
          (case readForm e maxMemory ps fin None 0 [] w of
             (Inl err, w1) \<Rightarrow> (Inl err, w1)
           | (Inr form, w1) \<Rightarrow>
               (case parseFormErr of Some err \<Rightarrow> (Inl err, w1) | None \<Rightarrow> (Inr form, w1)))
      | _ \<Rightarrow> (Inr [], w))"

text \<open>
  \<open>r.FormFile(key)\<close> on a parsed form: the first header of that field, opened. A header
  in memory opens without a system call; one in the temp file opens that file and reads
  its section. The third component is the file that the returned handle closes.
\<close>

definition FormFile ::
  "env \<Rightarrow> header list \<Rightarrow> string \<Rightarrow> world \<Rightarrow> (error + reader \<times> part \<times> string option) \<times> world" where
  "FormFile e form key w =
     (case find (\<lambda>h. FormName (fst h) = key) form of
        None \<Rightarrow> (Inl ErrMissingFile, w)
      | Some (p, None) \<Rightarrow> (Inr (\<lparr>rdata = content p, rerr = None\<rparr>, p, None), w)
      | Some (p, Some (tmp, off)) \<Rightarrow>
          (case Open e tmp w of
             (Inl err, w1) \<Rightarrow> (Inl err, w1)
           | (Inr bs, w1) \<Rightarrow>
               (Inr (\<lparr>rdata = take (length (content p)) (drop off bs), rerr = None\<rparr>, p, Some tmp),
                w1)))"

text \<open>
  The first part of \<open>uploadFile\<close> (``detect PUT or POST usage''), with the state it
  leaves: an early response, or the reader, the declared size (\<open>r.ContentLength\<close>, or
  \<open>handler.Size\<close>, the length of the part), the extension, the name, and the form file to
  close when \<open>uploadFile\<close> returns. (The deferred \<open>r.Body.Close()\<close> of the PUT branch
  acts on the connection, not on the file system, and has no counterpart here.)
\<close>

definition detect ::
  "Config \<Rightarrow> env \<Rightarrow> request \<Rightarrow> world
     \<Rightarrow> (UploadResponse + (reader option \<times> int \<times> string \<times> string \<times> string option)) \<times> world" where
  "detect cfg e req w =
     (case req of
        PUT body contentLength \<Rightarrow> (Inr (Some body, contentLength, '''', '''', None), w)
      | OTHER \<Rightarrow> (Inr (None, 0, '''', '''', None), w)
      | _ \<Rightarrow>
          (case ParseMultipartForm e (MaxFileSize cfg) req w of
             (Inl err, w1) \<Rightarrow>
               (Inl ((response StatusInternalServerError)\<lparr>Error := error_msg err\<rparr>), w1)
           | (Inr form, w1) \<Rightarrow>
               (case FormFile e form (UploadFormName cfg) w1 of
                  (Inl err, w2) \<Rightarrow> (Inl ((response StatusBadRequest)\<lparr>Error := error_msg err\<rparr>), w2)
                | (Inr (file, handler, opened), w2) \<Rightarrow>
                    (Inr (Some file, int (length (content handler)),
                          TrimPrefix (filepath_Ext (Filename handler)) ''.'',
                          TrimSuffix (Filename handler) (filepath_Ext (Filename handler)),
                          opened), w2))))"

text \<open>The deferred \<open>file.Close()\<close> of the POST branch.\<close>

definition close_form :: "env \<Rightarrow> string option \<Rightarrow> world \<Rightarrow> world" where
  "close_form e opened w = (case opened of None \<Rightarrow> w | Some tmp \<Rightarrow> snd (Close e tmp w))"

text \<open>
  What \<open>uploadFile\<close> does once the reader and the declared size are known, and
  \<open>uploadFile\<close> itself.
\<close>

definition upload_checked ::
  "Config \<Rightarrow> env \<Rightarrow> reader option \<Rightarrow> int \<Rightarrow> string \<Rightarrow> string \<Rightarrow> string \<Rightarrow> string \<Rightarrow> world
     \<Rightarrow> (panic + UploadResponse) \<times> world" where
  "upload_checked cfg e rd fileSize ext name ns vfsFilename w =
     (if fileSize > MaxFileSize cfg then
        (Inr ((response StatusRequestEntityTooLarge)
                \<lparr>Error := ''file size exceed '' @ Itoa (MaxFileSize cfg) @ '' bytes''\<rparr>), w)
      else if vfsFilename \<noteq> '''' then
        (case Upload cfg e rd vfsFilename ns w of
           (Inl p, w1) \<Rightarrow> (Inl p, w1)
         | (Inr (Some err), w1) \<Rightarrow>
             (Inr ((response StatusBadRequest)\<lparr>Error := error_msg err\<rparr>), w1)
         | (Inr None, w1) \<Rightarrow>
             (Inr ((response StatusOK)\<lparr>Extension := ext, Name := name\<rparr>), w1))
      else
        (case HashUpload cfg e rd ns w of
           (Inl p, w1) \<Rightarrow> (Inl p, w1)
         | (Inr (hash, Some err), w1) \<Rightarrow>
             (Inr ((response StatusBadRequest)\<lparr>Error := error_msg err\<rparr>), w1)
         | (Inr (hash, None), w1) \<Rightarrow>
             (case WebHashPath cfg ns hash of
                Inl p \<Rightarrow> (Inl p, w1)
              | Inr wp \<Rightarrow>
                  (Inr ((response StatusOK)\<lparr>Hash := hash, HashWebPath := wp\<rparr>), w1))))"

definition uploadFile ::
  "Config \<Rightarrow> env \<Rightarrow> request \<Rightarrow> string \<Rightarrow> string \<Rightarrow> world \<Rightarrow> (panic + UploadResponse) \<times> world" where
  "uploadFile cfg e req ns vfsFilename w =
     (case detect cfg e req w of
        (Inl early, w1) \<Rightarrow> (Inr early, w1)
      | (Inr (rd, fileSize, ext, name, opened), w1) \<Rightarrow>
          (case upload_checked cfg e rd fileSize ext name ns vfsFilename w1 of
             (res, w2) \<Rightarrow> (res, close_form e opened w2)))"

text \<open>
  The first block of \<open>createFile\<close>: what it learns from the stored file. Every failure
  in it leaves the corresponding variable at its initial value (no parameters, empty MIME
  type, size 0) and goes on.
\<close>

definition inspect ::
  "env \<Rightarrow> string \<Rightarrow> world \<Rightarrow> (VfsFileParams option \<times> string \<times> int) \<times> world" where
  "inspect e name w =
     (case Open e name w of
        (Inl err, w1) \<Rightarrow> ((None, '''', 0), w1)
      | (Inr bs, w1) \<Rightarrow>
          (let params = (case decode_config e bs of
                           Inr (width, height) \<Rightarrow> Some \<lparr>Height = height, Width = width\<rparr>
                         | Inl err \<Rightarrow> None)
           in case Stat e name bs w1 of
                (st, w2) \<Rightarrow>
                  (let fs = (case st of Inr n \<Rightarrow> n | Inl err \<Rightarrow> 0)
                   in case Seek e name w2 of
                        (sk, w3) \<Rightarrow>
                          (let mType = (case sk of
                                          Some err \<Rightarrow> ''''
                                        | None \<Rightarrow> (case detect_mime e bs of
                                                     Inr mt \<Rightarrow> mt
                                                   | Inl err \<Rightarrow> ''''))
                           in ((params, mType, fs), snd (Close e name w3))))))"

text \<open>
  \<open>createFile\<close>. The caller passes a folder it has checked to be non-nil. The result is
  the pair the Go function returns.
\<close>

definition createFile ::
  "Config \<Rightarrow> env \<Rightarrow> VfsFolder \<Rightarrow> string \<Rightarrow> string \<Rightarrow> string \<Rightarrow> string \<Rightarrow> world
     \<Rightarrow> (int \<times> error option) \<times> world" where
  "createFile cfg e folder ns relFilename name ext w =
     (case inspect e (VFS_Path cfg ns relFilename) w of
        ((params, mType, fs), w1) \<Rightarrow>
          (case next_file_id e of
             Inl err \<Rightarrow> ((0, Some err), w1)
           | Inr fileID \<Rightarrow>
               (case (if SaltedFilenames cfg
                      then (case randSeq e 8 w1 of (s, w2) \<Rightarrow> (''_'' @ s, w2))
                      else ('''', w1)) of
                  (salt, w2) \<Rightarrow>
                    (let filename = Itoa (FolderKey folder) @ ''_'' @ Itoa fileID @ salt @ ''.'' @ ext;
                         curYearMonth = now_200601 e
                     in case Move cfg e ns relFilename (Join [curYearMonth, filename]) w2 of
                          (Some err, w3) \<Rightarrow> ((0, Some err), w3)
                        | (None, w3) \<Rightarrow>
                            (let vfsFile =
                                   \<lparr>ID = fileID, FolderID = FolderKey folder, Title = name,
                                    FilePath = Join [curYearMonth, filename], Params = params,
                                    MimeType = mType, FileSize = fs, FileExists = True,
                                    StatusID = StatusEnabled e, CreatedAt = now e\<rparr>
                             in case add_vfs_file e vfsFile of
                                  Inl err \<Rightarrow> ((0, Some err), w3)
                                | Inr vf \<Rightarrow> ((ID vf, None), w3\<lparr>rows := rows w3 @ [vf]\<rparr>))))))"

section \<open>Predicates of the statements\<close>

text \<open>
  A path element that \<open>Clean\<close> copies unchanged: it is not empty, holds no separator
  and does not start with a dot.
\<close>

definition plain :: "string \<Rightarrow> bool" where
  "plain e \<longleftrightarrow> e \<noteq> [] \<and> list_all (\<lambda>c. \<not> is_sep c) e \<and> hd e \<noteq> CHR ''.''"

text \<open>
  A valid hash is what \<open>HashUpload\<close> computes: 32 lower-case hexadecimal digits.
\<close>

definition valid_hash :: "string \<Rightarrow> bool" where
  "valid_hash h \<longleftrightarrow> length h = 32 \<and> list_all (\<lambda>c. c \<in> set hextable) h"

section \<open>A concrete installation\<close>

text \<open>
  A store rooted at \<open>/data\<close> with one private namespace, an empty disk on which no
  call fails, and a reader that delivers the three bytes \<open>abc\<close>.
\<close>

definition demo_cfg :: Config where
  "demo_cfg =
     \<lparr>MaxFileSize = 10, Path = ''/data'', WebPath = ''/media'', Namespaces = [''items''],
      UploadFormName = ''file'', SaltedFilenames = False\<rparr>"

definition demo_env :: env where
  "demo_env =
     \<lparr>fails = (\<lambda>c. None), short_write = 0, os_TempDir = ''/tmp'', temp_random = (\<lambda>k. ''123''),
      rand_Intn = (\<lambda>i. 7 * i),
      now_200601 = ''202401'', now = 1700000000,
      decode_config = (\<lambda>bs. Inl (IOError ''image: unknown format'')),
      detect_mime = (\<lambda>bs. Inr ''text/plain''), next_file_id = Inr 9,
      add_vfs_file = (\<lambda>f. Inr f), StatusEnabled = 1\<rparr>"

definition demo_world :: world where
  "demo_world = \<lparr>files = Map.empty, calls = [], rows = [], drawn = 0\<rparr>"

definition demo_reader :: reader where
  "demo_reader = \<lparr>rdata = ''abc'', rerr = None\<rparr>"

definition demo_hash :: string where
  "demo_hash = ''900150983cd24fb0d6963f7d28e17f72''"

text \<open>The same installation where exactly the call \<open>c\<close> fails with error \<open>err\<close>.\<close>

definition failing :: "op \<Rightarrow> error \<Rightarrow> env" where
  "failing c err = demo_env\<lparr>fails := (\<lambda>x. if x = c then Some err else None)\<rparr>"

text \<open>
  An installation where every rename fails (the destination is on another volume) and
  every close fails too.
\<close>

definition crossdev_env :: env where
  "crossdev_env =
     demo_env\<lparr>fails := (\<lambda>c. case c of
                              OpRename old new \<Rightarrow> Some (IOError ''invalid cross-device link'')
                            | OpClose name \<Rightarrow> Some (IOError ''file already closed'')
                            | _ \<Rightarrow> None)\<rparr>"

text \<open>
  A folder, a state in which a plain upload has left the bytes \<open>abc\<close> under a temporary
  name in the namespace \<open>items\<close>, a configuration with salted file names, and a
  repository whose insert fails.
\<close>

definition demo_folder :: VfsFolder where
  "demo_folder = \<lparr>FolderKey = 1\<rparr>"

definition stored_world :: world where
  "stored_world = demo_world\<lparr>files := [''/data/items/tempabcd'' \<mapsto> ''abc'']\<rparr>"

definition salted_cfg :: Config where
  "salted_cfg = demo_cfg\<lparr>SaltedFilenames := True\<rparr>"

definition broken_repo_env :: env where
  "broken_repo_env = demo_env\<lparr>add_vfs_file := (\<lambda>f. Inl (RepoError ''insert failed''))\<rparr>"

text \<open>
  An installation where the size query fails and the MIME sniffer fails as well (the
  image decoder of \<open>demo_env\<close> already rejects the bytes).
\<close>

definition unreadable_env :: env where
  "unreadable_env =
     demo_env\<lparr>fails := (\<lambda>c. case c of OpStat name \<Rightarrow> Some (IOError ''stat failed'') | _ \<Rightarrow> None),
              detect_mime := (\<lambda>bs. Inl (IOError ''mimetype: read failed''))\<rparr>"

text \<open>A character that is neither a separator nor a dot.\<close>

definition ordinary :: "char \<Rightarrow> bool" where
  "ordinary c \<longleftrightarrow> \<not> is_sep c \<and> c \<noteq> CHR ''.''"

text \<open>The calls that sync a file, and those that copy a stream into one.\<close>

fun is_sync :: "op \<Rightarrow> bool" where
  "is_sync (OpSync name) = True"
| "is_sync _ = False"

fun is_copy :: "op \<Rightarrow> bool" where
  "is_copy (OpCopy name) = True"
| "is_copy _ = False"

text \<open>
  The calls by which \<open>Upload\<close> and \<open>HashUpload\<close> store a file: both begin with one
  (\<open>MkdirAll\<close>, and \<open>TempFile\<close> with the prefix \<open>vfs\<close>), and no file appears below the
  storage root without one.
\<close>

fun store_call :: "op \<Rightarrow> bool" where
  "store_call (OpMkdirAll dir) = True"
| "store_call (OpCreate name) = True"
| "store_call (OpRename old new) = True"
| "store_call (OpSync name) = True"
| "store_call (OpTempFile dir prefix) = (prefix = ''vfs'')"
| "store_call _ = False"

text \<open>A POST whose one file part, of 11 bytes, exceeds the maximum of \<open>demo_cfg\<close>.\<close>

definition big_post :: request where
  "big_post =
     POST [\<lparr>FormName = ''file'', Filename = ''photo.png'', content = ''hello world''\<rparr>] None None"

section \<open>Cleaning a path of plain elements\<close>

lemma clean_loop_sep: "clean_loop rooted (CHR ''/'' # cs) out dd = clean_loop rooted cs out dd"
  by (simp add: clean_loop.simps is_sep_def)

lemma clean_loop_plain:
  assumes "plain e" and "rest = [] \<or> is_sep (hd rest)"
  shows "clean_loop False (e @ rest) out dd =
         clean_loop False rest (if out = [] then e else out @ ''/'' @ e) dd"
proof -
  from assms(1) obtain c cs where e: "e = c # cs"
    by (cases e) (auto simp: plain_def)
  from assms(1) have nosep: "\<And>x. x \<in> set e \<Longrightarrow> \<not> is_sep x" and c: "\<not> is_sep c" "c \<noteq> CHR ''.''"
    by (auto simp: plain_def e list_all_iff)
  have rest: "dropWhile (\<lambda>x. \<not> is_sep x) rest = rest" "takeWhile (\<lambda>x. \<not> is_sep x) rest = []"
    using assms(2) by (cases rest; simp)+
  have d: "dropWhile (\<lambda>x. \<not> is_sep x) (e @ rest) = rest"
    using nosep rest by (simp add: dropWhile_append2)
  have t: "takeWhile (\<lambda>x. \<not> is_sep x) (e @ rest) = e"
    using nosep rest by (simp add: takeWhile_append2)
  have "clean_loop False (c # (cs @ rest)) out dd =
        clean_loop False (dropWhile (\<lambda>x. \<not> is_sep x) (c # (cs @ rest)))
          ((if out = [] then [] else out @ ''/'') @ takeWhile (\<lambda>x. \<not> is_sep x) (c # (cs @ rest))) dd"
    using c by (subst clean_loop.simps) (simp add: Let_def)
  then show ?thesis
    using d t by (simp add: e)
qed

lemma clean_loop_join:
  "es \<noteq> [] \<Longrightarrow> list_all plain es \<Longrightarrow>
   clean_loop False (join_sep es) out dd = (if out = [] then join_sep es else out @ ''/'' @ join_sep es)"
proof (induction es arbitrary: out rule: join_sep.induct)
  case 1
  then show ?case by simp
next
  case (2 e)
  then show ?case
    using clean_loop_plain [of e "[]" out dd] by (simp add: clean_loop.simps)
next
  case (3 e e' es)
  have "clean_loop False (e @ CHR ''/'' # join_sep (e' # es)) out dd =
        clean_loop False (CHR ''/'' # join_sep (e' # es)) (if out = [] then e else out @ ''/'' @ e) dd"
    using 3(3) by (intro clean_loop_plain) (simp_all add: is_sep_def)
  also have "\<dots> = clean_loop False (join_sep (e' # es)) (if out = [] then e else out @ ''/'' @ e) dd"
    by (rule clean_loop_sep)
  also have "\<dots> = (if out = [] then e else out @ ''/'' @ e) @ ''/'' @ join_sep (e' # es)"
    using 3(1) [of "if out = [] then e else out @ ''/'' @ e"] 3(3)
    by (auto simp: plain_def)
  finally show ?case by simp
qed

lemma join_sep_nonempty: "es \<noteq> [] \<Longrightarrow> list_all plain es \<Longrightarrow> join_sep es \<noteq> [] \<and> \<not> is_sep (hd (join_sep es))"
  by (induction es rule: join_sep.induct) (auto simp: plain_def list_all_iff)

lemma Clean_join_sep:
  assumes "es \<noteq> []" "list_all plain es"
  shows "Clean (join_sep es) = join_sep es"
  using join_sep_nonempty [OF assms] clean_loop_join [OF assms, of "[]" 0]
  by (simp add: Clean_def)

lemma Join_plain:
  assumes "es \<noteq> []" "list_all plain es"
  shows "Join es = join_sep es"
proof -
  from assms obtain e es' where es: "es = e # es'" by (cases es) auto
  with assms have "e \<noteq> []" by (simp add: plain_def)
  then have "dropWhile (\<lambda>e. e = []) es = es" by (simp add: es)
  then show ?thesis using Clean_join_sep [OF assms] by (simp add: Join_def es)
qed

section \<open>Hashes and their paths\<close>

lemma hex_digit_plain:
  "c \<in> set hextable \<Longrightarrow> \<not> is_sep c \<and> c \<noteq> CHR ''.'' \<and> string_of_byte c = [c]"
  by (auto simp: hextable_def is_sep_def string_of_byte_def)

lemma hex_string_plain: "list_all (\<lambda>c. c \<in> set hextable) e \<Longrightarrow> e \<noteq> [] \<Longrightarrow> plain e"
  using hex_digit_plain by (cases e) (auto simp: plain_def list_all_iff)

lemma Dir_valid_hash:
  assumes "valid_hash h"
  shows "Dir h = Inr ([h ! 0] @ ''/'' @ take 2 (drop 1 h))"
proof -
  from assms have "h ! 0 \<in> set hextable"
    by (auto simp: valid_hash_def list_all_iff)
  then have "string_of_byte (h ! 0) = [h ! 0]"
    using hex_digit_plain by blast
  with assms show ?thesis
    by (simp add: Dir_def valid_hash_def)
qed

lemma File_valid_hash:
  assumes "valid_hash h"
  shows "File h = Inr ([h ! 0] @ ''/'' @ take 2 (drop 1 h) @ ''/'' @ h @ ''.'' @ DefaultHashExtension)"
proof -
  from assms have all: "list_all (\<lambda>c. c \<in> set hextable) h" and len: "length h = 32"
    by (simp_all add: valid_hash_def)
  have "list_all (\<lambda>c. c \<in> set hextable) [h ! 0]"
    using all len by (simp add: list_all_iff)
  moreover have "list_all (\<lambda>c. c \<in> set hextable) (take 2 (drop 1 h))"
    using all by (auto simp: list_all_iff dest: in_set_takeD in_set_dropD)
  moreover have "take 2 (drop 1 h) \<noteq> []"
    using len by simp
  moreover have "h \<noteq> []"
    using len by auto
  ultimately have "list_all plain [[h ! 0], take 2 (drop 1 h), h]"
    using all hex_string_plain by simp
  then have "Join [[h ! 0], take 2 (drop 1 h), h] = join_sep [[h ! 0], take 2 (drop 1 h), h]"
    by (intro Join_plain) simp_all
  moreover have "Join [[h ! 0] @ ''/'' @ take 2 (drop 1 h), h] = Join [[h ! 0], take 2 (drop 1 h), h]"
    by (simp add: Join_def)
  ultimately show ?thesis
    using Dir_valid_hash [OF assms] by (simp add: File_def)
qed

lemma length_LEPutUint32: "length (LEPutUint32 x) = 4"
  by (simp add: LEPutUint32_def)

lemma length_md5_Sum: "length (md5_Sum bs) = 16"
  by (cases "md5_blocks md5_init (md5_pad bs)") (simp add: md5_Sum_def length_LEPutUint32)

lemma length_EncodeToString: "length (EncodeToString bs) = 2 * length bs"
  by (induction bs) (simp_all add: EncodeToString_def)

lemma hex_digit_nth: "k < 16 \<Longrightarrow> hextable ! k \<in> set hextable"
proof -
  have "length hextable = 16"
    by (simp add: hextable_def)
  then show "k < 16 \<Longrightarrow> hextable ! k \<in> set hextable"
    by (metis nth_mem)
qed

lemma set_EncodeToString: "list_all (\<lambda>c. c \<in> set hextable) (EncodeToString bs)"
proof (induction bs)
  case Nil
  then show ?case by (simp add: EncodeToString_def)
next
  case (Cons b bs)
  have "(of_char b :: nat) div 16 < 16"
    using nat_of_char_less_256 [of b] by (simp add: less_mult_imp_div_less)
  then show ?case
    using Cons hex_digit_nth by (simp add: EncodeToString_def)
qed

lemma valid_hash_md5: "valid_hash (EncodeToString (take 16 (md5_Sum bs)))"
  by (simp add: valid_hash_def length_EncodeToString length_md5_Sum set_EncodeToString)

text \<open>
  Claim C4. For every valid hash \<open>h\<close>, \<open>Dir\<close> gives \<open>h[0] + "/" + h[1:3]\<close> and
  \<open>File\<close> gives that directory, a separator, \<open>h\<close>, a dot and the fixed extension
  \<open>jpg\<close>. Both are functions of the hash alone: they take no file system state.
\<close>

theorem storagePath_of_valid_hash:
  assumes "valid_hash h"
  shows "Dir h = Inr ([h ! 0] @ ''/'' @ take 2 (drop 1 h)) \<and>
         File h = Inr (([h ! 0] @ ''/'' @ take 2 (drop 1 h)) @ ''/'' @ h @ ''.'' @ DefaultHashExtension) \<and>
         DefaultHashExtension = ''jpg''"
  using Dir_valid_hash [OF assms] File_valid_hash [OF assms] by (simp add: DefaultHashExtension_def)

theorem storagePath_of_valid_hash_witness:
  "valid_hash ''900150983cd24fb0d6963f7d28e17f72'' \<and>
   Dir ''900150983cd24fb0d6963f7d28e17f72'' = Inr ''9/00'' \<and>
   File ''900150983cd24fb0d6963f7d28e17f72'' = Inr ''9/00/900150983cd24fb0d6963f7d28e17f72.jpg''"
proof -
  have v: "valid_hash ''900150983cd24fb0d6963f7d28e17f72''"
    by (simp add: valid_hash_def hextable_def)
  show ?thesis
    using v storagePath_of_valid_hash [OF v] by simp
qed

text \<open>
  Claim C10. \<open>Dir\<close> and \<open>File\<close> return a path exactly for hashes of at least 3
  bytes; every shorter hash, the empty one included, ends in the run-time panic of the
  slice expression.
\<close>

theorem Dir_File_defined_iff:
  "((\<exists>d. Dir h = Inr d) \<longleftrightarrow> 3 \<le> length h) \<and>
   ((\<exists>f. File h = Inr f) \<longleftrightarrow> 3 \<le> length h) \<and>
   ((\<exists>p. Dir h = Inl p) \<longleftrightarrow> length h < 3) \<and>
   ((\<exists>p. File h = Inl p) \<longleftrightarrow> length h < 3)"
  by (auto simp: Dir_def File_def)

theorem Dir_File_defined_iff_witness:
  "Dir '''' = Inl SliceBoundsOutOfRange \<and> File ''ab'' = Inl SliceBoundsOutOfRange \<and>
   Dir ''abc'' = Inr ''a/bc'' \<and> (\<exists>f. File ''abc'' = Inr f)"
  using Dir_File_defined_iff [of "''''"] Dir_File_defined_iff [of "''abc''"]
  by (simp add: Dir_def File_def string_of_byte_def)

section \<open>Content-addressed upload\<close>

lemma namespace_loop_iff: "namespace_loop nss ns \<longleftrightarrow> ns \<in> set nss"
  by (induction nss) auto

lemma IsValidNamespace_iff:
  "IsValidNamespace cfg ns \<longleftrightarrow> ns = '''' \<or> ns \<in> set (Namespaces cfg)"
  by (simp add: IsValidNamespace_def NamespacePublic_def namespace_loop_iff)

text \<open>
  Claim C6. For a namespace that is neither empty nor configured, \<open>HashUpload\<close>
  returns \<open>ErrInvalidNamespace\<close> and the state it was called in: it has made no
  system call, so no destination file and no temp file exist because of it.
\<close>

theorem invalid_namespace_no_io:
  assumes "ns \<noteq> ''''" and "ns \<notin> set (Namespaces cfg)"
  shows "HashUpload cfg e r ns w = (Inr ('''', Some ErrInvalidNamespace), w)"
  using assms by (simp add: HashUpload_def IsValidNamespace_iff)

theorem invalid_namespace_no_io_witness:
  "''bad'' \<noteq> '''' \<and> ''bad'' \<notin> set (Namespaces demo_cfg) \<and>
   HashUpload demo_cfg demo_env (Some demo_reader) ''bad'' demo_world =
     (Inr ('''', Some ErrInvalidNamespace), demo_world) \<and>
   calls demo_world = [] \<and> files demo_world = Map.empty"
proof -
  have h: "''bad'' \<noteq> ''''" "''bad'' \<notin> set (Namespaces demo_cfg)"
    by (simp_all add: demo_cfg_def)
  show ?thesis
    using h invalid_namespace_no_io [OF h, of demo_env "Some demo_reader" demo_world]
    by (simp add: demo_world_def)
qed

lemma md5_abc: "EncodeToString (take 16 (md5_Sum ''abc'')) = demo_hash"
  unfolding demo_hash_def by code_simp

lemma HashUpload_success:
  assumes "HashUpload cfg e r ns w = (Inr (fh, None), w')"
  shows "\<exists>rd. r = Some rd \<and> fh = EncodeToString (take 16 (md5_Sum (rdata rd)))"
  using assms
  by (auto simp: HashUpload_def HashUpload_body_def HashUpload_deferred_def Copy_def Let_def
      split: if_splits prod.splits sum.splits option.splits)

lemma HashUpload_body_stores:
  assumes "HashUpload_body cfg e (Some rd) ns tmp w = ((Inr (fh, None), del), w')"
    and "files w tmp = Some []"
  shows "\<exists>p. File fh = Inr p \<and> files w' (VFS_Path cfg ns p) = Some (rdata rd) \<and> \<not> del"
  using assms
  by (auto simp: HashUpload_body_def Sync_def Copy_def MkdirAll_def Rename_def sys_def
      FullFile_def append_file_def Let_def
      split: if_splits prod.splits sum.splits option.splits)

lemma HashUpload_deferred_keeps:
  "files (snd (HashUpload_deferred e tmp False err w)) = files w"
  by (simp add: HashUpload_deferred_def Close_def sys_def)

lemma TempFile_empty:
  "TempFile e dir prefix w = (Inr tmp, w1) \<Longrightarrow> files w1 tmp = Some []"
  by (auto simp: TempFile_def sys_def Let_def split: option.splits)

lemma HashUpload_success_stores:
  assumes "HashUpload cfg e (Some rd) ns w = (Inr (fh, None), w')"
  shows "\<exists>p. File fh = Inr p \<and> files w' (VFS_Path cfg ns p) = Some (rdata rd)"
proof -
  from assms obtain tmp w1 del w2 err where
    t: "TempFile e (Path cfg) ''vfs'' w = (Inr tmp, w1)"
    and b: "HashUpload_body cfg e (Some rd) ns tmp w1 = ((Inr (fh, err), del), w2)"
    and d: "HashUpload_deferred e tmp del err w2 = (None, w')"
    by (auto simp: HashUpload_def split: if_splits prod.splits sum.splits)
  have "err = None"
    using d by (auto simp: HashUpload_deferred_def split: prod.splits if_splits)
  with b TempFile_empty [OF t] HashUpload_body_stores [of cfg e rd ns tmp w1 fh del w2]
  obtain p where p: "File fh = Inr p" "files w2 (VFS_Path cfg ns p) = Some (rdata rd)" "\<not> del"
    by auto
  have "files w' = files w2"
    using HashUpload_deferred_keeps [of e tmp err w2] d p(3) by simp
  with p show ?thesis
    by simp
qed

lemma HashUpload_no_failure:
  fixes w :: world
  assumes valid: "IsValidNamespace cfg ns"
    and ok: "\<And>c. fails e c = None"
    and eof: "rerr rd = None"
  defines "tmp \<equiv> Join [if Path cfg = '''' then os_TempDir e else Path cfg,
                        ''vfs'' @ temp_random e (length (calls w))]"
    and "fh \<equiv> EncodeToString (take 16 (md5_Sum (rdata rd)))"
  defines "dir \<equiv> VFS_Path cfg ns ([fh ! 0] @ ''/'' @ take 2 (drop 1 fh))"
    and "dest \<equiv> VFS_Path cfg ns ([fh ! 0] @ ''/'' @ take 2 (drop 1 fh) @ ''/'' @ fh @ ''.'' @ DefaultHashExtension)"
  shows "HashUpload cfg e (Some rd) ns w =
           (Inr (fh, None),
            w\<lparr>files := ((files w)(tmp := None))(dest \<mapsto> rdata rd),
              calls := calls w @ [OpTempFile (Path cfg) ''vfs'', OpSync tmp, OpCopy tmp,
                                  OpMkdirAll dir, OpRename tmp dest, OpClose tmp]\<rparr>)"
proof -
  have vh: "valid_hash fh"
    unfolding fh_def by (rule valid_hash_md5)
  have d: "FullDir cfg ns fh = Inr dir"
    by (simp add: FullDir_def Dir_valid_hash [OF vh] dir_def)
  have f: "FullFile cfg ns fh = Inr dest"
    by (simp add: FullFile_def File_valid_hash [OF vh] dest_def)
  have t: "TempFile e (Path cfg) ''vfs'' w =
             (Inr tmp, w\<lparr>files := (files w)(tmp \<mapsto> []), calls := calls w @ [OpTempFile (Path cfg) ''vfs'']\<rparr>)"
    by (simp add: TempFile_def sys_def ok tmp_def Let_def)
  have b: "HashUpload_body cfg e (Some rd) ns tmp
             (w\<lparr>files := (files w)(tmp \<mapsto> []), calls := calls w @ [OpTempFile (Path cfg) ''vfs'']\<rparr>) =
           ((Inr (fh, None), False),
            w\<lparr>files := ((files w)(tmp := None))(dest \<mapsto> rdata rd),
              calls := calls w @ [OpTempFile (Path cfg) ''vfs'', OpSync tmp, OpCopy tmp,
                                  OpMkdirAll dir, OpRename tmp dest]\<rparr>)"
    using d f
    by (simp add: HashUpload_body_def Sync_def Copy_def MkdirAll_def Rename_def sys_def ok eof
        append_file_def fh_def [symmetric] Let_def)
  show ?thesis
    by (simp add: HashUpload_def valid t b HashUpload_deferred_def Close_def sys_def ok)
qed

text \<open>
  Claim C5. Two successful runs of \<open>HashUpload\<close> on readers that deliver the same
  bytes return the same hash, whatever the namespaces, the configurations and the states
  they run in; hence \<open>File\<close> gives the same path relative to the namespace, and that
  path is the sharded one. At the end of either run the file at that relative path, under
  the root and the namespace of the run, holds exactly the bytes delivered.
\<close>

theorem publish_deterministic:
  assumes "HashUpload cfg1 e1 (Some rd1) ns1 w1 = (Inr (fh1, None), w1')"
    and "HashUpload cfg2 e2 (Some rd2) ns2 w2 = (Inr (fh2, None), w2')"
    and "rdata rd1 = rdata rd2"
  shows "fh1 = fh2 \<and> File fh1 = File fh2 \<and>
         File fh1 = Inr ([fh1 ! 0] @ ''/'' @ take 2 (drop 1 fh1) @ ''/'' @ fh1 @ ''.'' @ DefaultHashExtension) \<and>
         files w1' (VFS_Path cfg1 ns1
           ([fh1 ! 0] @ ''/'' @ take 2 (drop 1 fh1) @ ''/'' @ fh1 @ ''.'' @ DefaultHashExtension)) =
           Some (rdata rd1) \<and>
         files w2' (VFS_Path cfg2 ns2
           ([fh1 ! 0] @ ''/'' @ take 2 (drop 1 fh1) @ ''/'' @ fh1 @ ''.'' @ DefaultHashExtension)) =
           Some (rdata rd1)"
proof -
  from HashUpload_success [OF assms(1)] have 1: "fh1 = EncodeToString (take 16 (md5_Sum (rdata rd1)))"
    by simp
  from HashUpload_success [OF assms(2)] have 2: "fh2 = EncodeToString (take 16 (md5_Sum (rdata rd1)))"
    by (simp add: assms(3))
  have "valid_hash fh1"
    unfolding 1 by (rule valid_hash_md5)
  then have f: "File fh1 = Inr ([fh1 ! 0] @ ''/'' @ take 2 (drop 1 fh1) @ ''/'' @ fh1 @ ''.'' @ DefaultHashExtension)"
    by (rule File_valid_hash)
  have e: "fh1 = fh2"
    using 1 2 by simp
  from HashUpload_success_stores [OF assms(1)] f
  have s1: "files w1' (VFS_Path cfg1 ns1
           ([fh1 ! 0] @ ''/'' @ take 2 (drop 1 fh1) @ ''/'' @ fh1 @ ''.'' @ DefaultHashExtension)) =
           Some (rdata rd1)"
    by auto
  from HashUpload_success_stores [OF assms(2)] f e assms(3)
  have s2: "files w2' (VFS_Path cfg2 ns2
           ([fh1 ! 0] @ ''/'' @ take 2 (drop 1 fh1) @ ''/'' @ fh1 @ ''.'' @ DefaultHashExtension)) =
           Some (rdata rd1)"
    by auto
  show ?thesis
    using e f s1 s2 by simp
qed

lemma demo_no_failure: "fails demo_env c = None" "rerr demo_reader = None"
  by (simp_all add: demo_env_def demo_reader_def)

lemma demo_valid: "IsValidNamespace demo_cfg ''''" "IsValidNamespace demo_cfg ''items''"
  by (simp_all add: IsValidNamespace_iff demo_cfg_def)

lemma demo_fh: "EncodeToString (take 16 (md5_Sum (rdata demo_reader))) = demo_hash"
  using md5_abc by (simp add: demo_reader_def)

lemma demo_paths:
  "Join [if Path demo_cfg = '''' then os_TempDir demo_env else Path demo_cfg,
         ''vfs'' @ temp_random demo_env (length (calls demo_world))] = ''/data/vfs123''"
  "VFS_Path demo_cfg '''' ([demo_hash ! 0] @ ''/'' @ take 2 (drop 1 demo_hash)) = ''/data/9/00''"
  "VFS_Path demo_cfg ''items'' ([demo_hash ! 0] @ ''/'' @ take 2 (drop 1 demo_hash)) = ''/data/items/9/00''"
  "VFS_Path demo_cfg '''' ([demo_hash ! 0] @ ''/'' @ take 2 (drop 1 demo_hash) @ ''/'' @ demo_hash @ ''.'' @ DefaultHashExtension)
     = ''/data/9/00/900150983cd24fb0d6963f7d28e17f72.jpg''"
  "VFS_Path demo_cfg ''items'' ([demo_hash ! 0] @ ''/'' @ take 2 (drop 1 demo_hash) @ ''/'' @ demo_hash @ ''.'' @ DefaultHashExtension)
     = ''/data/items/9/00/900150983cd24fb0d6963f7d28e17f72.jpg''"
  by code_simp+

lemma HashUpload_demo_public:
  "HashUpload demo_cfg demo_env (Some demo_reader) '''' demo_world =
     (Inr (demo_hash, None),
      demo_world\<lparr>files := ((files demo_world)(''/data/vfs123'' := None))
                 (''/data/9/00/900150983cd24fb0d6963f7d28e17f72.jpg'' \<mapsto> rdata demo_reader),
        calls := calls demo_world @
          [OpTempFile (Path demo_cfg) ''vfs'', OpSync ''/data/vfs123'', OpCopy ''/data/vfs123'',
           OpMkdirAll ''/data/9/00'',
           OpRename ''/data/vfs123'' ''/data/9/00/900150983cd24fb0d6963f7d28e17f72.jpg'',
           OpClose ''/data/vfs123'']\<rparr>)"
  by (rule HashUpload_no_failure [OF demo_valid(1) demo_no_failure, where w = demo_world,
        unfolded demo_fh demo_paths])

lemma HashUpload_demo_items:
  "HashUpload demo_cfg demo_env (Some demo_reader) ''items'' demo_world =
     (Inr (demo_hash, None),
      demo_world\<lparr>files := ((files demo_world)(''/data/vfs123'' := None))
                 (''/data/items/9/00/900150983cd24fb0d6963f7d28e17f72.jpg'' \<mapsto> rdata demo_reader),
        calls := calls demo_world @
          [OpTempFile (Path demo_cfg) ''vfs'', OpSync ''/data/vfs123'', OpCopy ''/data/vfs123'',
           OpMkdirAll ''/data/items/9/00'',
           OpRename ''/data/vfs123'' ''/data/items/9/00/900150983cd24fb0d6963f7d28e17f72.jpg'',
           OpClose ''/data/vfs123'']\<rparr>)"
  by (rule HashUpload_no_failure [OF demo_valid(2) demo_no_failure, where w = demo_world,
        unfolded demo_fh demo_paths])

theorem publish_deterministic_witness:
  "fst (HashUpload demo_cfg demo_env (Some demo_reader) '''' demo_world) = Inr (demo_hash, None) \<and>
   fst (HashUpload demo_cfg demo_env (Some demo_reader) ''items'' demo_world) = Inr (demo_hash, None) \<and>
   File demo_hash = Inr ''9/00/900150983cd24fb0d6963f7d28e17f72.jpg'' \<and>
   files (snd (HashUpload demo_cfg demo_env (Some demo_reader) '''' demo_world))
     ''/data/9/00/900150983cd24fb0d6963f7d28e17f72.jpg'' = Some ''abc'' \<and>
   files (snd (HashUpload demo_cfg demo_env (Some demo_reader) ''items'' demo_world))
     ''/data/items/9/00/900150983cd24fb0d6963f7d28e17f72.jpg'' = Some ''abc''"
proof -
  note d = publish_deterministic [OF HashUpload_demo_public HashUpload_demo_items refl,
      unfolded demo_paths]
  have r: "rdata demo_reader = ''abc''"
    by (simp add: demo_reader_def)
  have f: "File demo_hash = Inr ''9/00/900150983cd24fb0d6963f7d28e17f72.jpg''"
    using d by (simp add: demo_hash_def DefaultHashExtension_def)
  have s1: "files (snd (HashUpload demo_cfg demo_env (Some demo_reader) '''' demo_world))
     ''/data/9/00/900150983cd24fb0d6963f7d28e17f72.jpg'' = Some ''abc''"
    unfolding HashUpload_demo_public snd_conv r [symmetric]
    by (rule d [THEN conjunct2, THEN conjunct2, THEN conjunct2, THEN conjunct1])
  have s2: "files (snd (HashUpload demo_cfg demo_env (Some demo_reader) ''items'' demo_world))
     ''/data/items/9/00/900150983cd24fb0d6963f7d28e17f72.jpg'' = Some ''abc''"
    unfolding HashUpload_demo_items snd_conv r [symmetric]
    by (rule d [THEN conjunct2, THEN conjunct2, THEN conjunct2, THEN conjunct2])
  show ?thesis
    using f s1 s2 by (simp add: HashUpload_demo_public HashUpload_demo_items)
qed

text \<open>
  In every run of \<open>HashUpload\<close>, whatever fails, no file is synced once the copy has
  been started: the one sync of the function comes first.
\<close>

lemma Copy_calls:
  "\<exists>post. calls (snd (Copy e name r w)) = calls w @ post \<and> filter is_sync post = []"
  by (auto simp: Copy_def sys_def append_file_def split: option.splits)

lemma Rename_calls:
  "Rename e old new w = (x, w') \<Longrightarrow> calls w' = calls w @ [OpRename old new]"
  by (auto simp: Rename_def sys_def split: option.splits)

lemma Remove_calls:
  "Remove e name w = (x, w') \<Longrightarrow> calls w' = calls w @ [OpRemove name]"
  by (auto simp: Remove_def sys_def split: option.splits)

lemma HashUpload_body_calls:
  "\<exists>post. calls (snd (HashUpload_body cfg e r ns tmp w)) = calls w @ OpSync tmp # post \<and>
          filter is_sync post = []"
proof (cases "fails e (OpSync tmp)")
  case (Some err)
  then show ?thesis
    by (simp add: HashUpload_body_def Sync_def sys_def)
next
  case None
  define w1 where "w1 = w\<lparr>calls := calls w @ [OpSync tmp]\<rparr>"
  obtain c w2 where c: "Copy e tmp r w1 = (c, w2)"
    by (cases "Copy e tmp r w1")
  from Copy_calls [of e tmp r w1] c obtain p1 where
    p1: "calls w2 = calls w @ OpSync tmp # p1" "filter is_sync p1 = []"
    by (auto simp: w1_def)
  have s: "Sync e tmp w = (None, w1)"
    using None by (simp add: Sync_def sys_def w1_def)
  show ?thesis
    using p1
    by (auto simp: HashUpload_body_def s c MkdirAll_def sys_def Let_def
        split: sum.splits option.splits prod.splits dest!: Rename_calls)
qed

lemma HashUpload_deferred_calls:
  "\<exists>post. calls (snd (HashUpload_deferred e tmp del err w)) = calls w @ post \<and>
          filter is_sync post = []"
  by (auto simp: HashUpload_deferred_def Close_def sys_def split: prod.splits dest!: Remove_calls)

lemma filter_dropWhile_empty: "filter Q xs = [] \<Longrightarrow> filter Q (dropWhile P xs) = []"
  by (induction xs) (auto split: if_splits)

lemma HashUpload_no_sync_after_copy:
  "\<exists>post. calls (snd (HashUpload cfg e r ns w)) = calls w @ post \<and>
          filter is_sync (dropWhile (\<lambda>c. \<not> is_copy c) post) = []"
proof (cases "IsValidNamespace cfg ns")
  case False
  then show ?thesis
    by (simp add: HashUpload_def)
next
  case True
  obtain t w1 where t: "TempFile e (Path cfg) ''vfs'' w = (t, w1)"
    by (cases "TempFile e (Path cfg) ''vfs'' w")
  then have w1: "calls w1 = calls w @ [OpTempFile (Path cfg) ''vfs'']"
    by (auto simp: TempFile_def sys_def Let_def split: option.splits)
  show ?thesis
  proof (cases t)
    case (Inl err)
    then show ?thesis
      using True t w1 by (simp add: HashUpload_def)
  next
    case (Inr tmp)
    obtain res del w2 where b: "HashUpload_body cfg e r ns tmp w1 = ((res, del), w2)"
      by (cases "HashUpload_body cfg e r ns tmp w1") auto
    from HashUpload_body_calls [of cfg e r ns tmp w1] b obtain p1 where
      p1: "calls w2 = calls w1 @ OpSync tmp # p1" "filter is_sync p1 = []"
      by auto
    have d: "\<exists>p2. calls (snd (HashUpload_deferred e tmp del x w2)) = calls w2 @ p2 \<and>
                  filter is_sync p2 = []" for x
      by (rule HashUpload_deferred_calls)
    have "\<exists>p2. calls (snd (HashUpload cfg e r ns w)) = calls w2 @ p2 \<and> filter is_sync p2 = []"
    proof (cases res)
      case (Inl p)
      then show ?thesis
        using d [of None] by (simp add: HashUpload_def True t Inr b)
    next
      case (Inr v)
      then show ?thesis
        using d [of "snd v"] by (cases v) (auto simp: HashUpload_def True t \<open>t = Inr tmp\<close> b split: prod.splits)
    qed
    then obtain p2 where p2: "calls (snd (HashUpload cfg e r ns w)) = calls w2 @ p2"
      "filter is_sync p2 = []"
      by blast
    have "filter is_sync (dropWhile (\<lambda>c. \<not> is_copy c) (p1 @ p2)) = []"
      using p1(2) p2(2) by (intro filter_dropWhile_empty) simp
    then show ?thesis
      using p1 p2 w1 by simp
  qed
qed

text \<open>
  Claim C1, which the code does not satisfy. Publishing the bytes \<open>abc\<close> to the public
  namespace makes these calls in this order: the temp file is synced while it is still
  empty, then the stream is copied into it, and no sync follows the copy before the
  rename. (The sync does precede the rename.)
\<close>

theorem HashUpload_syncs_before_copy:
  "calls (snd (HashUpload demo_cfg demo_env (Some demo_reader) NamespacePublic demo_world)) =
     [OpTempFile ''/data'' ''vfs'', OpSync ''/data/vfs123'', OpCopy ''/data/vfs123'',
      OpMkdirAll ''/data/9/00'',
      OpRename ''/data/vfs123'' ''/data/9/00/900150983cd24fb0d6963f7d28e17f72.jpg'',
      OpClose ''/data/vfs123'']"
  unfolding NamespacePublic_def HashUpload_demo_public
  by (simp add: demo_world_def demo_cfg_def)

lemma HashUpload_body_error_keeps_flag:
  "HashUpload_body cfg e r ns tmp w1 = ((Inr (fh, Some x), del), w2) \<Longrightarrow> del \<and> fh = ''''"
  by (auto simp: HashUpload_body_def Let_def split: prod.splits option.splits sum.splits)

lemma HashUpload_body_success_flag:
  "HashUpload_body cfg e r ns tmp w1 = ((Inr (fh, None), del), w2) \<Longrightarrow> \<not> del"
  by (auto simp: HashUpload_body_def Let_def split: prod.splits option.splits sum.splits)

text \<open>
  Claim C7. Once the temp file exists, let \<open>err\<close> be the error of the \<open>return\<close>
  statement that the body reaches. If there is one, \<open>HashUpload\<close> returns exactly it,
  whatever closing and deleting do; the deferred function has closed the temp file and
  then removed it, and when the removal does not fail no file is left at the temp name.
  If there is none, the error returned is that of closing, and nothing is removed.
\<close>

theorem first_failure_wins:
  assumes valid: "IsValidNamespace cfg ns"
    and temp: "TempFile e (Path cfg) ''vfs'' w = (Inr tmp, w1)"
    and body: "HashUpload_body cfg e r ns tmp w1 = ((Inr (fh, err), del), w2)"
  shows "(\<forall>x. err = Some x \<longrightarrow>
            fst (HashUpload cfg e r ns w) = Inr ('''', Some x) \<and>
            calls (snd (HashUpload cfg e r ns w)) = calls w2 @ [OpClose tmp, OpRemove tmp] \<and>
            (fails e (OpRemove tmp) = None \<longrightarrow> files (snd (HashUpload cfg e r ns w)) tmp = None)) \<and>
         (err = None \<longrightarrow>
            fst (HashUpload cfg e r ns w) = Inr (fh, fails e (OpClose tmp)) \<and>
            calls (snd (HashUpload cfg e r ns w)) = calls w2 @ [OpClose tmp])"
proof (cases err)
  case None
  with body have "\<not> del"
    using HashUpload_body_success_flag by blast
  with None show ?thesis
    by (simp add: HashUpload_def valid temp body HashUpload_deferred_def Close_def sys_def)
next
  case (Some x)
  with body have "del" "fh = ''''"
    using HashUpload_body_error_keeps_flag by blast+
  with Some show ?thesis
    by (auto simp: HashUpload_def valid temp body HashUpload_deferred_def Close_def Remove_def sys_def
        split: option.splits)
qed

theorem first_failure_wins_witness:
  "IsValidNamespace demo_cfg '''' \<and>
   fails crossdev_env (OpClose ''/data/vfs123'') = Some (IOError ''file already closed'') \<and>
   fst (HashUpload demo_cfg crossdev_env (Some demo_reader) '''' demo_world) =
     Inr ('''', Some (IOError ''invalid cross-device link'')) \<and>
   files (snd (HashUpload demo_cfg crossdev_env (Some demo_reader) '''' demo_world)) ''/data/vfs123'' = None \<and>
   fst (HashUpload demo_cfg demo_env (Some demo_reader) '''' demo_world) = Inr (demo_hash, None)"
proof -
  define w1 where "w1 = snd (TempFile crossdev_env (Path demo_cfg) ''vfs'' demo_world)"
  define w2 where "w2 = snd (HashUpload_body demo_cfg crossdev_env (Some demo_reader) '''' ''/data/vfs123'' w1)"
  define v1 where "v1 = snd (TempFile demo_env (Path demo_cfg) ''vfs'' demo_world)"
  define v2 where "v2 = snd (HashUpload_body demo_cfg demo_env (Some demo_reader) '''' ''/data/vfs123'' v1)"
  have "fst (TempFile crossdev_env (Path demo_cfg) ''vfs'' demo_world) = Inr ''/data/vfs123''"
    by code_simp
  then have t: "TempFile crossdev_env (Path demo_cfg) ''vfs'' demo_world = (Inr ''/data/vfs123'', w1)"
    by (simp add: w1_def prod_eq_iff)
  have "fst (HashUpload_body demo_cfg crossdev_env (Some demo_reader) '''' ''/data/vfs123'' w1) =
          (Inr ('''', Some (IOError ''invalid cross-device link'')), True)"
    unfolding w1_def by code_simp
  then have b: "HashUpload_body demo_cfg crossdev_env (Some demo_reader) '''' ''/data/vfs123'' w1 =
          ((Inr ('''', Some (IOError ''invalid cross-device link'')), True), w2)"
    by (simp add: w2_def prod_eq_iff)
  have "fst (TempFile demo_env (Path demo_cfg) ''vfs'' demo_world) = Inr ''/data/vfs123''"
    by code_simp
  then have t': "TempFile demo_env (Path demo_cfg) ''vfs'' demo_world = (Inr ''/data/vfs123'', v1)"
    by (simp add: v1_def prod_eq_iff)
  have "fst (HashUpload_body demo_cfg demo_env (Some demo_reader) '''' ''/data/vfs123'' v1) =
          (Inr (demo_hash, None), False)"
    unfolding v1_def by code_simp
  then have b': "HashUpload_body demo_cfg demo_env (Some demo_reader) '''' ''/data/vfs123'' v1 =
          ((Inr (demo_hash, None), False), v2)"
    by (simp add: v2_def prod_eq_iff)
  have c: "fails crossdev_env (OpRemove ''/data/vfs123'') = None"
    "fails crossdev_env (OpClose ''/data/vfs123'') = Some (IOError ''file already closed'')"
    "fails demo_env (OpClose ''/data/vfs123'') = None"
    by (simp_all add: crossdev_env_def demo_env_def)
  show ?thesis
    using first_failure_wins [OF demo_valid(1) t b] first_failure_wins [OF demo_valid(1) t' b'] c
      demo_valid(1)
    by simp
qed

section \<open>Foldered upload\<close>

lemma ordinary_digits:
  "list_all (\<lambda>k. ordinary (char_of (48 + (k::nat)))) [0, 1, 2, 3, 4, 5, 6, 7, 8, 9]"
  by code_simp

lemma ordinary_digit: "k < 10 \<Longrightarrow> ordinary (char_of (48 + (k::nat)))"
proof -
  assume "k < 10"
  then have "k \<in> set [0, 1, 2, 3, 4, 5, 6, 7, 8, 9]"
    by auto
  with ordinary_digits show ?thesis
    unfolding list_all_iff by blast
qed

lemma decimal_ordinary: "decimal n \<noteq> [] \<and> list_all ordinary (decimal n)"
proof (induction n rule: decimal.induct)
  case (1 n)
  show ?case
  proof (cases "n < 10")
    case True
    then have "decimal n = [char_of (48 + n)]"
      by (simp add: decimal.simps [of n])
    with True show ?thesis
      using ordinary_digit [of n] by simp
  next
    case False
    then have d: "decimal n = decimal (n div 10) @ [char_of (48 + n mod 10)]"
      by (simp add: decimal.simps [of n])
    have "ordinary (char_of (48 + n mod 10))"
      by (rule ordinary_digit) simp
    moreover have "list_all ordinary (decimal (n div 10))"
      using 1 False by blast
    ultimately show ?thesis
      unfolding d by simp
  qed
qed

lemma Itoa_ordinary: "Itoa i \<noteq> [] \<and> list_all ordinary (Itoa i)"
proof -
  have "ordinary CHR ''-''"
    by code_simp
  then show ?thesis
    using decimal_ordinary [of "nat i"] decimal_ordinary [of "nat (- i)"]
    by (simp add: Itoa_def)
qed

lemma ordinary_plain: "e \<noteq> [] \<Longrightarrow> ordinary (hd e) \<Longrightarrow> list_all (\<lambda>c. \<not> is_sep c) e \<Longrightarrow> plain e"
  by (simp add: plain_def ordinary_def)

lemma ordinary_no_sep: "list_all ordinary e \<Longrightarrow> list_all (\<lambda>c. \<not> is_sep c) e"
  by (simp add: list_all_iff ordinary_def)

lemma Itoa_plain_prefix:
  assumes "list_all (\<lambda>c. \<not> is_sep c) rest"
  shows "plain (Itoa i @ rest)"
proof -
  from Itoa_ordinary [of i] obtain c cs where i: "Itoa i = c # cs"
    by (cases "Itoa i") auto
  with Itoa_ordinary [of i] have "ordinary (hd (Itoa i @ rest))"
    by simp
  moreover have "list_all (\<lambda>c. \<not> is_sep c) (Itoa i @ rest)"
    using assms ordinary_no_sep [of "Itoa i"] Itoa_ordinary [of i] by simp
  ultimately show ?thesis
    using i by (intro ordinary_plain) simp_all
qed

lemma ordinary_letters: "list_all ordinary letters"
  by code_simp

lemma randSeq_no_sep: "list_all (\<lambda>c. \<not> is_sep c) (fst (randSeq e n w))"
proof -
  have "\<And>k. ordinary (letters ! (k mod length letters))"
    using ordinary_letters unfolding list_all_length by (simp add: letters_def)
  then show ?thesis
    by (simp add: randSeq_def list_all_iff ordinary_def)
qed

lemma final_path_shape:
  assumes "plain ym" and "list_all (\<lambda>c. \<not> is_sep c) ext"
    and "salt = [] \<or> salt = ''_'' @ fst (randSeq e n w)"
  shows "Join [ym, Itoa a @ ''_'' @ Itoa b @ salt @ ''.'' @ ext] =
         ym @ ''/'' @ Itoa a @ ''_'' @ Itoa b @ salt @ ''.'' @ ext"
proof -
  have u: "\<not> is_sep CHR ''_''" "\<not> is_sep CHR ''.''"
    by (simp_all add: is_sep_def)
  have "list_all (\<lambda>c. \<not> is_sep c) salt"
    using assms(3) randSeq_no_sep [of e n w] u by auto
  moreover have "list_all (\<lambda>c. \<not> is_sep c) (Itoa b)"
    using Itoa_ordinary [of b] ordinary_no_sep by blast
  ultimately have "list_all (\<lambda>c. \<not> is_sep c) (''_'' @ Itoa b @ salt @ ''.'' @ ext)"
    using assms(2) u by simp
  then have "plain (Itoa a @ ''_'' @ Itoa b @ salt @ ''.'' @ ext)"
    by (rule Itoa_plain_prefix)
  with assms(1) show ?thesis
    using Join_plain [of "[ym, Itoa a @ ''_'' @ Itoa b @ salt @ ''.'' @ ext]"] by simp
qed

lemma createFile_moved:
  fixes cfg e folder ns relFilename name ext w i bs
  defines "src \<equiv> VFS_Path cfg ns relFilename"
    and "salt \<equiv> (if SaltedFilenames cfg then ''_'' @ fst (randSeq e 8 w) else '''')"
  defines "newPath \<equiv> Join [now_200601 e, Itoa (FolderKey folder) @ ''_'' @ Itoa i @ salt @ ''.'' @ ext]"
  defines "opened \<equiv> fails e (OpOpen src) = None"
  defines "params \<equiv> (if opened then (case decode_config e bs of
                                        Inr (width, height) \<Rightarrow> Some \<lparr>Height = height, Width = width\<rparr>
                                      | Inl err \<Rightarrow> None)
                      else None)"
    and "fs \<equiv> (if opened \<and> fails e (OpStat src) = None then int (length bs) else 0)"
    and "mType \<equiv> (if opened \<and> fails e (OpSeek src) = None
                   then (case detect_mime e bs of Inr mt \<Rightarrow> mt | Inl err \<Rightarrow> '''')
                   else '''')"
  defines "vfsFile \<equiv> \<lparr>ID = i, FolderID = FolderKey folder, Title = name, FilePath = newPath,
                       Params = params, MimeType = mType, FileSize = fs, FileExists = True,
                       StatusID = StatusEnabled e, CreatedAt = now e\<rparr>"
  defines "moved \<equiv> w\<lparr>files := ((files w)(src := None))(VFS_Path cfg ns newPath \<mapsto> bs),
                      calls := calls w @ (if opened then [OpOpen src, OpStat src, OpSeek src, OpClose src]
                                          else [OpOpen src])
                                 @ [OpMkdirAll (filepath_Dir (VFS_Path cfg ns newPath)),
                                    OpRename src (VFS_Path cfg ns newPath)],
                      drawn := drawn w + (if SaltedFilenames cfg then 8 else 0)\<rparr>"
  assumes id: "next_file_id e = Inr i"
    and mk: "fails e (OpMkdirAll (filepath_Dir (VFS_Path cfg ns newPath))) = None"
    and mv: "fails e (OpRename src (VFS_Path cfg ns newPath)) = None"
    and stored: "files w src = Some bs"
  shows "createFile cfg e folder ns relFilename name ext w =
           (case add_vfs_file e vfsFile of
              Inl err \<Rightarrow> ((0, Some err), moved)
            | Inr vf \<Rightarrow> ((ID vf, None), moved\<lparr>rows := rows moved @ [vf]\<rparr>))"
proof -
  define w1 where "w1 = w\<lparr>calls := calls w @ (if opened then [OpOpen src, OpStat src, OpSeek src, OpClose src]
                                       else [OpOpen src])\<rparr>"
  define w2 where "w2 = w1\<lparr>drawn := drawn w + (if SaltedFilenames cfg then 8 else 0)\<rparr>"
  have ins: "inspect e src w = ((params, mType, fs), w1)"
    using stored
    by (auto simp: inspect_def Open_def Stat_def Seek_def Close_def sys_def Let_def opened_def
        params_def fs_def mType_def w1_def split: option.splits sum.splits prod.splits)
  have sel: "(if SaltedFilenames cfg
              then (case randSeq e 8 w1 of (s, w2) \<Rightarrow> (''_'' @ s, w2))
              else ('''', w1)) = (salt, w2)"
    by (simp add: randSeq_def salt_def w1_def w2_def)
  have move: "Move cfg e ns relFilename newPath w2 = (None, moved)"
    using mk mv stored
    by (simp add: Move_def MkdirAll_def Rename_def sys_def Let_def VFS_Path_def src_def
        w1_def w2_def moved_def)
  show ?thesis
    unfolding createFile_def src_def [symmetric] ins prod.case id sum.case sel Let_def
    unfolding newPath_def [symmetric] move prod.case option.case vfsFile_def [symmetric]
    by (rule refl)
qed

text \<open>
  Claim C2 as stated does not hold: with a failing size query \<open>createFile\<close> still
  succeeds and stores a record, whose size is 0.
\<close>

theorem stat_failure_does_not_abort:
  "fst (Stat (failing (OpStat ''/data/items/tempabcd'') (IOError ''stat failed''))
          ''/data/items/tempabcd'' ''abc'' stored_world) = Inl (IOError ''stat failed'') \<and>
   fst (createFile demo_cfg (failing (OpStat ''/data/items/tempabcd'') (IOError ''stat failed''))
          demo_folder ''items'' ''tempabcd'' ''photo'' ''png'' stored_world) = (9, None) \<and>
   map FileSize (rows (snd (createFile demo_cfg
          (failing (OpStat ''/data/items/tempabcd'') (IOError ''stat failed''))
          demo_folder ''items'' ''tempabcd'' ''photo'' ''png'' stored_world))) = [0]"
  by code_simp

text \<open>
  Claim C2, amended. Whenever the identifier is allocated, the move succeeds and the
  repository stores the record \<open>vfsFile\<close> that it is handed, \<open>createFile\<close> returns the
  identifier of the stored record, whatever happens while it inspects the file: a failed
  size query leaves the size 0, a failed decode leaves the parameters out, a failed MIME
  detection leaves the type empty, and a file that cannot be opened leaves all three.
\<close>

theorem createFile_ignores_metadata_failures:
  fixes cfg e folder ns relFilename name ext w i bs
  defines "src \<equiv> VFS_Path cfg ns relFilename"
    and "salt \<equiv> (if SaltedFilenames cfg then ''_'' @ fst (randSeq e 8 w) else '''')"
  defines "newPath \<equiv> Join [now_200601 e, Itoa (FolderKey folder) @ ''_'' @ Itoa i @ salt @ ''.'' @ ext]"
  defines "opened \<equiv> fails e (OpOpen src) = None"
  defines "params \<equiv> (if opened then (case decode_config e bs of
                                        Inr (width, height) \<Rightarrow> Some \<lparr>Height = height, Width = width\<rparr>
                                      | Inl err \<Rightarrow> None)
                      else None)"
    and "fs \<equiv> (if opened \<and> fails e (OpStat src) = None then int (length bs) else 0)"
    and "mType \<equiv> (if opened \<and> fails e (OpSeek src) = None
                   then (case detect_mime e bs of Inr mt \<Rightarrow> mt | Inl err \<Rightarrow> '''')
                   else '''')"
  defines "vfsFile \<equiv> \<lparr>ID = i, FolderID = FolderKey folder, Title = name, FilePath = newPath,
                       Params = params, MimeType = mType, FileSize = fs, FileExists = True,
                       StatusID = StatusEnabled e, CreatedAt = now e\<rparr>"
  assumes id: "next_file_id e = Inr i"
    and mk: "fails e (OpMkdirAll (filepath_Dir (VFS_Path cfg ns newPath))) = None"
    and mv: "fails e (OpRename src (VFS_Path cfg ns newPath)) = None"
    and stored: "files w src = Some bs"
    and add: "add_vfs_file e vfsFile = Inr vf"
  shows "fst (createFile cfg e folder ns relFilename name ext w) = (ID vf, None) \<and>
         rows (snd (createFile cfg e folder ns relFilename name ext w)) = rows w @ [vf] \<and>
         (fails e (OpStat src) \<noteq> None \<longrightarrow> FileSize vfsFile = 0) \<and>
         (fails e (OpOpen src) \<noteq> None \<longrightarrow>
            FileSize vfsFile = 0 \<and> Params vfsFile = None \<and> MimeType vfsFile = '''') \<and>
         (\<forall>err. decode_config e bs = Inl err \<longrightarrow> Params vfsFile = None) \<and>
         (\<forall>err. detect_mime e bs = Inl err \<longrightarrow> MimeType vfsFile = '''')"
proof -
  note defs = src_def salt_def newPath_def opened_def params_def fs_def mType_def vfsFile_def
  note m = createFile_moved [OF id mk [unfolded defs] mv [unfolded defs] stored [unfolded defs]]
  have "fst (createFile cfg e folder ns relFilename name ext w) = (ID vf, None) \<and>
        rows (snd (createFile cfg e folder ns relFilename name ext w)) = rows w @ [vf]"
    unfolding m add [unfolded defs] by simp
  moreover have "(fails e (OpStat src) \<noteq> None \<longrightarrow> FileSize vfsFile = 0) \<and>
         (fails e (OpOpen src) \<noteq> None \<longrightarrow>
            FileSize vfsFile = 0 \<and> Params vfsFile = None \<and> MimeType vfsFile = '''') \<and>
         (\<forall>err. decode_config e bs = Inl err \<longrightarrow> Params vfsFile = None) \<and>
         (\<forall>err. detect_mime e bs = Inl err \<longrightarrow> MimeType vfsFile = '''')"
    by (auto simp: vfsFile_def fs_def params_def mType_def opened_def)
  ultimately show ?thesis
    by blast
qed

text \<open>
  Claim C9. When the move has succeeded and the repository refuses the record,
  \<open>createFile\<close> returns the repository's error, stores no row, and makes no further
  system call after the rename: the bytes stay at the final path
  \<open><YYYYMM>/<folderID>_<fileID>[_<salt>].<ext>\<close> below the namespace.
\<close>

theorem orphan_after_failed_insert:
  fixes cfg e folder ns relFilename name ext w i bs
  defines "src \<equiv> VFS_Path cfg ns relFilename"
    and "salt \<equiv> (if SaltedFilenames cfg then ''_'' @ fst (randSeq e 8 w) else '''')"
  defines "final \<equiv> now_200601 e @ ''/'' @ Itoa (FolderKey folder) @ ''_'' @ Itoa i @ salt @ ''.'' @ ext"
  assumes id: "next_file_id e = Inr i"
    and ym: "plain (now_200601 e)"
    and ext: "list_all (\<lambda>c. \<not> is_sep c) ext"
    and mk: "fails e (OpMkdirAll (filepath_Dir (VFS_Path cfg ns final))) = None"
    and mv: "fails e (OpRename src (VFS_Path cfg ns final)) = None"
    and stored: "files w src = Some bs"
    and add: "\<And>f. add_vfs_file e f = Inl err"
  shows "fst (createFile cfg e folder ns relFilename name ext w) = (0, Some err) \<and>
         files (snd (createFile cfg e folder ns relFilename name ext w)) (VFS_Path cfg ns final) = Some bs \<and>
         rows (snd (createFile cfg e folder ns relFilename name ext w)) = rows w \<and>
         last (calls (snd (createFile cfg e folder ns relFilename name ext w))) =
           OpRename src (VFS_Path cfg ns final)"
proof -
  have shape: "Join [now_200601 e, Itoa (FolderKey folder) @ ''_'' @ Itoa i @ salt @ ''.'' @ ext] = final"
    unfolding final_def
    by (rule final_path_shape [OF ym ext, of salt e 8 w]) (simp add: salt_def)
  note defs = src_def salt_def
  note m = createFile_moved [OF id mk [folded shape, unfolded defs] mv [folded shape, unfolded defs]
      stored [unfolded defs]]
  show ?thesis
    unfolding m add sum.case shape [unfolded defs] src_def
    by simp
qed

lemma demo_src:
  "VFS_Path demo_cfg ''items'' ''tempabcd'' = ''/data/items/tempabcd''"
  "VFS_Path salted_cfg ''items'' ''tempabcd'' = ''/data/items/tempabcd''"
  by code_simp+

lemma unreadable_newPath:
  "Join [now_200601 unreadable_env,
         Itoa (FolderKey demo_folder) @ ''_'' @ Itoa 9 @
         (if SaltedFilenames demo_cfg then ''_'' @ fst (randSeq unreadable_env 8 stored_world) else '''') @
         ''.'' @ ''png''] = ''202401/1_9.png''"
  by code_simp

lemma unreadable_facts:
  "next_file_id unreadable_env = Inr 9"
  "fails unreadable_env (OpMkdirAll d) = None"
  "fails unreadable_env (OpRename a b) = None"
  "fails unreadable_env (OpOpen a) = None"
  "fails unreadable_env (OpStat a) = Some (IOError ''stat failed'')"
  "add_vfs_file unreadable_env f = Inr f"
  "decode_config unreadable_env bs = Inl (IOError ''image: unknown format'')"
  "detect_mime unreadable_env bs = Inl (IOError ''mimetype: read failed'')"
  by (simp_all add: unreadable_env_def demo_env_def)

lemma stored_file: "files stored_world ''/data/items/tempabcd'' = Some ''abc''" "rows stored_world = []"
  by (simp_all add: stored_world_def demo_world_def)

theorem createFile_ignores_metadata_failures_witness:
  "fails unreadable_env (OpStat ''/data/items/tempabcd'') \<noteq> None \<and>
   decode_config unreadable_env ''abc'' = Inl (IOError ''image: unknown format'') \<and>
   detect_mime unreadable_env ''abc'' = Inl (IOError ''mimetype: read failed'') \<and>
   fst (createFile demo_cfg unreadable_env demo_folder ''items'' ''tempabcd'' ''photo'' ''png''
          stored_world) = (9, None) \<and>
   length (rows (snd (createFile demo_cfg unreadable_env demo_folder ''items'' ''tempabcd'' ''photo''
          ''png'' stored_world))) = 1"
proof -
  note t = createFile_ignores_metadata_failures
    [where cfg = demo_cfg and e = unreadable_env and folder = demo_folder and ns = "''items''"
       and relFilename = "''tempabcd''" and name = "''photo''" and ext = "''png''"
       and w = stored_world and i = 9 and bs = "''abc''",
     unfolded unreadable_newPath demo_src,
     OF unreadable_facts(1) unreadable_facts(2) unreadable_facts(3) stored_file(1) unreadable_facts(6)]
  show ?thesis
    using t by (simp add: unreadable_facts stored_file)
qed

lemma broken_final:
  "VFS_Path salted_cfg ''items''
     (now_200601 broken_repo_env @ ''/'' @ Itoa (FolderKey demo_folder) @ ''_'' @ Itoa 9 @
      (if SaltedFilenames salted_cfg then ''_'' @ fst (randSeq broken_repo_env 8 stored_world) else '''') @
      ''.'' @ ''png'') = ''/data/items/202401/1_9_ahov29gn.png''"
  by code_simp

lemma broken_facts:
  "next_file_id broken_repo_env = Inr 9"
  "fails broken_repo_env c = None"
  "add_vfs_file broken_repo_env f = Inl (RepoError ''insert failed'')"
  by (simp_all add: broken_repo_env_def demo_env_def)

lemma broken_shape: "plain (now_200601 broken_repo_env)" "list_all (\<lambda>c. \<not> is_sep c) ''png''"
  by code_simp+

theorem orphan_after_failed_insert_witness:
  "fst (createFile salted_cfg broken_repo_env demo_folder ''items'' ''tempabcd'' ''photo'' ''png''
          stored_world) = (0, Some (RepoError ''insert failed'')) \<and>
   files (snd (createFile salted_cfg broken_repo_env demo_folder ''items'' ''tempabcd'' ''photo'' ''png''
          stored_world)) ''/data/items/202401/1_9_ahov29gn.png'' = Some ''abc'' \<and>
   rows (snd (createFile salted_cfg broken_repo_env demo_folder ''items'' ''tempabcd'' ''photo'' ''png''
          stored_world)) = []"
proof -
  note t = orphan_after_failed_insert
    [where cfg = salted_cfg and e = broken_repo_env and folder = demo_folder and ns = "''items''"
       and relFilename = "''tempabcd''" and name = "''photo''" and ext = "''png''"
       and w = stored_world and i = 9 and bs = "''abc''" and err = "RepoError ''insert failed''",
     unfolded broken_final demo_src,
     OF broken_facts(1) broken_shape broken_facts(2) broken_facts(2) stored_file(1) broken_facts(3)]
  show ?thesis
    using t by (simp add: stored_file)
qed

section \<open>Status codes of the orchestrator\<close>

text \<open>
  The detection of the request, parsing the form included, makes none of the calls by
  which \<open>Upload\<close> and \<open>HashUpload\<close> build a destination file; neither does closing the
  form file.
\<close>

lemma Remove_store_calls:
  "filter store_call (calls (snd (Remove e name w))) = filter store_call (calls w)"
  by (simp add: Remove_def sys_def split: option.splits)

lemma Close_store_calls:
  "filter store_call (calls (snd (Close e name w))) = filter store_call (calls w)"
  by (simp add: Close_def sys_def)

lemma RemoveAll_store_calls:
  "filter store_call (calls (RemoveAll e form w)) = filter store_call (calls w)"
  by (induction e form w rule: RemoveAll.induct) (simp_all add: Remove_store_calls)

lemma readForm_deferred_store_calls:
  "filter store_call (calls (snd (readForm_deferred e tf form err w))) = filter store_call (calls w)"
  by (cases tf; cases err; cases "fails e (OpClose (the tf))")
    (simp_all add: readForm_deferred_def Close_def sys_def RemoveAll_store_calls Remove_store_calls)

lemma multipart_TempFile_store_calls:
  "filter store_call (calls (snd (TempFile e '''' ''multipart-'' w))) = filter store_call (calls w)"
  by (simp add: TempFile_def sys_def Let_def split: option.splits)

lemma append_file_calls: "calls (append_file name bs w) = calls w"
  by (simp add: append_file_def)

lemma readForm_store_calls:
  "filter store_call (calls (snd (readForm e m ps fin tf off form w))) = filter store_call (calls w)"
proof (induction ps arbitrary: m tf off form w)
  case Nil
  then show ?case
    by (simp add: readForm_deferred_store_calls)
next
  case (Cons p ps)
  show ?case
  proof (cases "int (length (content p)) > m")
    case False
    then show ?thesis
      using Cons by simp
  next
    case True
    obtain t w1 where t: "(case tf of Some name \<Rightarrow> (Inr name, w)
                           | None \<Rightarrow> TempFile e '''' ''multipart-'' w) = (t, w1)"
      by (cases "case tf of Some name \<Rightarrow> (Inr name, w)
                 | None \<Rightarrow> TempFile e '''' ''multipart-'' w")
    have w1: "filter store_call (calls w1) = filter store_call (calls w)"
      using t multipart_TempFile_store_calls [of e w] by (cases tf) auto
    show ?thesis
    proof (cases t)
      case (Inl err)
      then show ?thesis
        using True t w1 by (simp add: readForm_deferred_store_calls)
    next
      case (Inr name)
      show ?thesis
      proof (cases "fails e (OpCopy name)")
        case None
        then show ?thesis
          using True t Inr w1 Cons by (simp add: sys_def append_file_calls)
      next
        case (Some err)
        then show ?thesis
          using True t Inr w1
          by (simp add: sys_def readForm_deferred_store_calls append_file_calls)
      qed
    qed
  qed
qed

lemma detect_store_calls:
  "filter store_call (calls (snd (detect cfg e req w))) = filter store_call (calls w)"
proof (cases req)
  case (PUT body n)
  then show ?thesis by (simp add: detect_def)
next
  case OTHER
  then show ?thesis by (simp add: detect_def)
next
  case (POST ps fin q)
  obtain r w1 where r: "readForm e (MaxFileSize cfg) ps fin None 0 [] w = (r, w1)"
    by (cases "readForm e (MaxFileSize cfg) ps fin None 0 [] w")
  then have "filter store_call (calls w1) = filter store_call (calls w)"
    using readForm_store_calls [of e "MaxFileSize cfg" ps fin None 0 "[]" w] by simp
  then show ?thesis
    using POST r
    by (auto simp: detect_def ParseMultipartForm_def FormFile_def Open_def sys_def
        split: sum.splits option.splits prod.splits)
next
  case (POST_parsed form)
  then show ?thesis
    by (auto simp: detect_def ParseMultipartForm_def FormFile_def Open_def sys_def
        split: sum.splits option.splits prod.splits)
qed

lemma close_form_store_calls:
  "filter store_call (calls (close_form e opened w)) = filter store_call (calls w)"
  by (cases opened) (simp_all add: close_form_def Close_store_calls)

text \<open>
  Claim C8. When the declared size that \<open>uploadFile\<close> reads from the request
  (\<open>ContentLength\<close> of a PUT, the size in the header of the form file of a POST) exceeds
  \<open>MaxFileSize\<close>, the response has status 413 and the final state is the one that the
  detection of the request left, with the form file closed: no step of \<open>Upload\<close> or
  \<open>HashUpload\<close> has run. For a POST the form has been parsed by then, which consumes
  the body and may spill it to a temp file of \<open>mime/multipart\<close>; still no directory was
  made, no file was created, renamed or synced and no temp file of \<open>HashUpload\<close> was
  created. For a PUT the state is the one before the call.
\<close>

theorem upload_too_large:
  assumes "detect cfg e req w = (Inr (rd, fileSize, ext, name, opened), w1)"
    and "fileSize > MaxFileSize cfg"
  shows "uploadFile cfg e req ns vfsFilename w =
           (Inr ((response StatusRequestEntityTooLarge)
                   \<lparr>Error := ''file size exceed '' @ Itoa (MaxFileSize cfg) @ '' bytes''\<rparr>),
            close_form e opened w1) \<and>
         StatusRequestEntityTooLarge = 413 \<and>
         filter store_call (calls (snd (uploadFile cfg e req ns vfsFilename w))) =
           filter store_call (calls w) \<and>
         (\<forall>body n. req = PUT body n \<longrightarrow> snd (uploadFile cfg e req ns vfsFilename w) = w)"
proof -
  have u: "uploadFile cfg e req ns vfsFilename w =
           (Inr ((response StatusRequestEntityTooLarge)
                   \<lparr>Error := ''file size exceed '' @ Itoa (MaxFileSize cfg) @ '' bytes''\<rparr>),
            close_form e opened w1)"
    using assms by (simp add: uploadFile_def upload_checked_def)
  have "filter store_call (calls w1) = filter store_call (calls w)"
    using detect_store_calls [of cfg e req w] assms(1) by simp
  then have s: "filter store_call (calls (close_form e opened w1)) = filter store_call (calls w)"
    by (simp add: close_form_store_calls)
  have "snd (uploadFile cfg e req ns vfsFilename w) = w" if "req = PUT body n" for body n
    using that assms(1) u by (auto simp: detect_def close_form_def)
  then show ?thesis
    using u s by (simp add: StatusRequestEntityTooLarge_def)
qed

theorem upload_too_large_witness:
  "fst (detect demo_cfg demo_env big_post demo_world) =
     Inr (Some \<lparr>rdata = ''hello world'', rerr = None\<rparr>, 11, ''png'', ''photo'',
          Some ''/tmp/multipart-123'') \<and>
   11 > MaxFileSize demo_cfg \<and>
   fst (uploadFile demo_cfg demo_env big_post ''items'' '''' demo_world) =
     Inr ((response 413)\<lparr>Error := ''file size exceed 10 bytes''\<rparr>) \<and>
   calls (snd (uploadFile demo_cfg demo_env big_post ''items'' '''' demo_world)) =
     [OpTempFile '''' ''multipart-'', OpCopy ''/tmp/multipart-123'', OpClose ''/tmp/multipart-123'',
      OpOpen ''/tmp/multipart-123'', OpClose ''/tmp/multipart-123''] \<and>
   uploadFile demo_cfg demo_env (PUT demo_reader 11) ''items'' '''' demo_world =
     (Inr ((response 413)\<lparr>Error := ''file size exceed 10 bytes''\<rparr>), demo_world)"
proof -
  define w1 where "w1 = snd (detect demo_cfg demo_env big_post demo_world)"
  have d1: "fst (detect demo_cfg demo_env big_post demo_world) =
     Inr (Some \<lparr>rdata = ''hello world'', rerr = None\<rparr>, 11, ''png'', ''photo'',
          Some ''/tmp/multipart-123'')"
    by code_simp
  then have d: "detect demo_cfg demo_env big_post demo_world =
     (Inr (Some \<lparr>rdata = ''hello world'', rerr = None\<rparr>, 11, ''png'', ''photo'',
           Some ''/tmp/multipart-123''), w1)"
    by (simp add: w1_def prod_eq_iff)
  have c: "calls (close_form demo_env (Some ''/tmp/multipart-123'') w1) =
     [OpTempFile [] ''multipart-'', OpCopy ''/tmp/multipart-123'', OpClose ''/tmp/multipart-123'',
      OpOpen ''/tmp/multipart-123'', OpClose ''/tmp/multipart-123'']"
    unfolding w1_def by code_simp
  have p: "detect demo_cfg demo_env (PUT demo_reader 11) demo_world =
     (Inr (Some demo_reader, 11, '''', '''', None), demo_world)"
    by (simp add: detect_def)
  have m: "11 > MaxFileSize demo_cfg"
    by (simp add: demo_cfg_def)
  have i: "Itoa (MaxFileSize demo_cfg) = ''10''"
    by code_simp
  note a = upload_too_large [OF d m, of "''items''" "[]", THEN conjunct1]
  note b = upload_too_large [OF p m, of "''items''" "[]", THEN conjunct1]
  have r1: "fst (uploadFile demo_cfg demo_env big_post ''items'' [] demo_world) =
     Inr ((response 413)\<lparr>Error := ''file size exceed 10 bytes''\<rparr>)"
    unfolding a i by (simp add: StatusRequestEntityTooLarge_def)
  have r2: "calls (snd (uploadFile demo_cfg demo_env big_post ''items'' [] demo_world)) =
     [OpTempFile [] ''multipart-'', OpCopy ''/tmp/multipart-123'', OpClose ''/tmp/multipart-123'',
      OpOpen ''/tmp/multipart-123'', OpClose ''/tmp/multipart-123'']"
    unfolding a snd_conv by (rule c)
  have r3: "uploadFile demo_cfg demo_env (PUT demo_reader 11) ''items'' [] demo_world =
     (Inr ((response 413)\<lparr>Error := ''file size exceed 10 bytes''\<rparr>), demo_world)"
    unfolding b i by (simp add: StatusRequestEntityTooLarge_def close_form_def)
  show ?thesis
    using d1 m r1 r2 r3 by blast
qed

text \<open>
  Claim C3 as stated does not hold: when the disk is full and the temp file cannot be
  created, \<open>HashUpload\<close> fails with that I/O error and \<open>uploadFile\<close> answers 400,
  not 500.
\<close>

theorem io_failure_answers_400:
  "fst (HashUpload demo_cfg (failing (OpTempFile ''/data'' ''vfs'') (IOError ''no space left on device''))
          (Some demo_reader) '''' demo_world) = Inr ('''', Some (IOError ''no space left on device'')) \<and>
   fst (uploadFile demo_cfg (failing (OpTempFile ''/data'' ''vfs'') (IOError ''no space left on device''))
          (PUT demo_reader 3) '''' '''' demo_world) =
     Inr ((response 400)\<lparr>Error := ''no space left on device''\<rparr>) \<and>
   (400 :: int) \<noteq> StatusInternalServerError"
  by code_simp

text \<open>
  Claim C3, amended. For a request that gets past the detection of PUT or POST: a
  declared size above the maximum gives status 413; otherwise every error of \<open>Upload\<close>
  and every error of \<open>HashUpload\<close>, an I/O error as much as the invalid namespace, gives
  status 400 with the message of the error. \<open>Upload\<close> and \<open>HashUpload\<close> run in the
  state that the detection left.
\<close>

theorem upload_failure_status:
  assumes "detect cfg e req w = (Inr (rd, fileSize, ext, name, opened), w1)"
  shows "(MaxFileSize cfg < fileSize \<longrightarrow>
            fst (uploadFile cfg e req ns vfsFilename w) =
              Inr ((response StatusRequestEntityTooLarge)
                     \<lparr>Error := ''file size exceed '' @ Itoa (MaxFileSize cfg) @ '' bytes''\<rparr>)) \<and>
         (fileSize \<le> MaxFileSize cfg \<longrightarrow> vfsFilename \<noteq> '''' \<longrightarrow>
            fst (Upload cfg e rd vfsFilename ns w1) = Inr (Some err) \<longrightarrow>
            fst (uploadFile cfg e req ns vfsFilename w) =
              Inr ((response StatusBadRequest)\<lparr>Error := error_msg err\<rparr>)) \<and>
         (fileSize \<le> MaxFileSize cfg \<longrightarrow>
            fst (HashUpload cfg e rd ns w1) = Inr (h, Some err) \<longrightarrow>
            fst (uploadFile cfg e req ns '''' w) =
              Inr ((response StatusBadRequest)\<lparr>Error := error_msg err\<rparr>)) \<and>
         (fileSize \<le> MaxFileSize cfg \<longrightarrow> \<not> IsValidNamespace cfg ns \<longrightarrow>
            fst (uploadFile cfg e req ns '''' w) =
              Inr ((response StatusBadRequest)\<lparr>Error := error_msg ErrInvalidNamespace\<rparr>)) \<and>
         StatusBadRequest = 400 \<and> StatusRequestEntityTooLarge = 413"
  using assms
  by (auto simp: uploadFile_def upload_checked_def StatusBadRequest_def
      StatusRequestEntityTooLarge_def HashUpload_def
      split: prod.splits sum.splits option.splits)

theorem upload_failure_status_witness:
  "fst (uploadFile demo_cfg demo_env (PUT demo_reader 11) '''' '''' demo_world) =
     Inr ((response 413)\<lparr>Error := ''file size exceed 10 bytes''\<rparr>) \<and>
   fst (uploadFile demo_cfg (failing (OpCreate ''/data/items/tempabcd'') (IOError ''permission denied''))
          (PUT demo_reader 3) ''items'' ''tempabcd'' demo_world) =
     Inr ((response 400)\<lparr>Error := ''permission denied''\<rparr>) \<and>
   fst (uploadFile demo_cfg crossdev_env (PUT demo_reader 3) ''items'' '''' demo_world) =
     Inr ((response 400)\<lparr>Error := ''invalid cross-device link''\<rparr>) \<and>
   fst (uploadFile demo_cfg demo_env (PUT demo_reader 3) ''bad'' '''' demo_world) =
     Inr ((response 400)\<lparr>Error := ''invalid namespace''\<rparr>)"
proof -
  have big: "detect demo_cfg e (PUT demo_reader 11) demo_world =
               (Inr (Some demo_reader, 11, '''', '''', None), demo_world)"
    and small: "detect demo_cfg e (PUT demo_reader 3) demo_world =
               (Inr (Some demo_reader, 3, '''', '''', None), demo_world)" for e
    by (simp_all add: detect_def)
  have m: "MaxFileSize demo_cfg = 10" "Itoa 10 = ''10''"
    by code_simp+
  have store: "fst (Upload demo_cfg (failing (OpCreate ''/data/items/tempabcd'') (IOError ''permission denied''))
                      (Some demo_reader) ''tempabcd'' ''items'' demo_world) =
               Inr (Some (IOError ''permission denied''))"
    by code_simp
  have publish: "fst (HashUpload demo_cfg crossdev_env (Some demo_reader) ''items'' demo_world) =
                 Inr ('''', Some (IOError ''invalid cross-device link''))"
    by code_simp
  have bad: "\<not> IsValidNamespace demo_cfg ''bad''"
    by code_simp
  have c1: "fst (uploadFile demo_cfg demo_env (PUT demo_reader 11) [] [] demo_world) =
     Inr ((response 413)\<lparr>Error := ''file size exceed 10 bytes''\<rparr>)"
    using upload_failure_status [OF big, where ns = "[]" and vfsFilename = "[]"]
    by (simp add: m StatusRequestEntityTooLarge_def)
  have c2: "fst (uploadFile demo_cfg (failing (OpCreate ''/data/items/tempabcd'') (IOError ''permission denied''))
          (PUT demo_reader 3) ''items'' ''tempabcd'' demo_world) =
     Inr ((response 400)\<lparr>Error := ''permission denied''\<rparr>)"
    using upload_failure_status [OF small, where ns = "''items''" and vfsFilename = "''tempabcd''"
        and err = "IOError ''permission denied''"] store
    by (simp add: m StatusBadRequest_def)
  have c3: "fst (uploadFile demo_cfg crossdev_env (PUT demo_reader 3) ''items'' [] demo_world) =
     Inr ((response 400)\<lparr>Error := ''invalid cross-device link''\<rparr>)"
    using upload_failure_status [OF small, where ns = "''items''"
        and h = "[]" and err = "IOError ''invalid cross-device link''"] publish
    by (simp add: m StatusBadRequest_def)
  have c4: "fst (uploadFile demo_cfg demo_env (PUT demo_reader 3) ''bad'' [] demo_world) =
     Inr ((response 400)\<lparr>Error := ''invalid namespace''\<rparr>)"
    using upload_failure_status [OF small, where ns = "''bad''"] bad
    by (simp add: m StatusBadRequest_def)
  show ?thesis
    using c1 c2 c3 c4 by simp
qed

end
